theory Spec2Isabelle
  imports
    Complex_Main
    "HOL-Library.Product_Lexorder"
    "HOL-Library.List_Lexorder"
    "HOL-Library.Char_ord"
begin

section \<open>Common data\<close>

text \<open>
  A calendar timestamp as pandas and \<^verbatim>\<open>datetime\<close> hold it: year, month, day and the
  microsecond within the day. The lexicographic order on the tuple is the chronological
  order. Amounts and prices are Python floats; they are modelled as real numbers, so
  \<open>*\<close> and \<open>+\<close> below are the exact operations that the float operations round.
\<close>

type_synonym datetime = "int \<times> nat \<times> nat \<times> nat"

text \<open>
  \<^verbatim>\<open>.dt.to_period('M').dt.to_timestamp()\<close>: the first instant of the timestamp's month.
\<close>

fun to_month :: "datetime \<Rightarrow> datetime" where
  "to_month (y, m, d, us) = (y, m, 1, 0)"

text \<open>An error message (\<^verbatim>\<open>str(e)\<close>, or a literal of the source).\<close>

type_synonym error = string

text \<open>\<^verbatim>\<open>d.get(key, default)\<close> on a key that may be absent.\<close>

definition dict_get :: "'a option \<Rightarrow> 'a \<Rightarrow> 'a" where
  "dict_get v dflt = (case v of None \<Rightarrow> dflt | Some x \<Rightarrow> x)"

section \<open>utils/data\_processor.py\<close>

text \<open>A row of the Dune frame: columns month, chain, total\_claims, total\_fluid\_claimed, source.\<close>

record dune_row =
  evm_month :: datetime
  evm_chain :: string
  total_claims :: int
  total_fluid_claimed :: real
  evm_source :: string

text \<open>
  A row of the monthly Solana frame: columns month, token, total\_amount, total\_usd,
  num\_transactions, chain, source.
\<close>

record solana_row =
  sol_month :: datetime
  sol_token :: string
  total_amount :: real
  total_usd :: real
  sol_num_transactions :: int
  sol_chain :: string
  sol_source :: string

text \<open>
  A row of the standard schema: month, chain, source, token, token\_amount, usd\_value,
  num\_transactions. A frame is the list of its rows; \<^verbatim>\<open>pd.DataFrame()\<close> is \<open>[]\<close>.
\<close>

record expense_record =
  month :: datetime
  chain :: string
  source :: string
  token :: string
  token_amount :: real
  usd_value :: real
  num_transactions :: int

definition normalize_evm_row :: "real \<Rightarrow> dune_row \<Rightarrow> expense_record" where
  "normalize_evm_row fluid_price r =
     \<lparr> month = evm_month r,
       chain = evm_chain r,
       source = evm_source r,
       token = ''FLUID'',
       token_amount = total_fluid_claimed r,
       usd_value = total_fluid_claimed r * fluid_price,
       num_transactions = total_claims r \<rparr>"

definition normalize_evm_data :: "dune_row list \<Rightarrow> real \<Rightarrow> expense_record list" where
  "normalize_evm_data dune_df fluid_price =
     (if dune_df = [] then []
      else map (normalize_evm_row fluid_price) dune_df)"

definition calc_usd_value :: "real \<Rightarrow> solana_row \<Rightarrow> real" where
  "calc_usd_value fluid_price row =
     (if sol_token row \<in> set [''FLUID'', ''SOL'', ''WSOL'']
      then total_amount row * fluid_price
      else total_usd row)"

definition normalize_solana_row :: "real \<Rightarrow> solana_row \<Rightarrow> expense_record" where
  "normalize_solana_row fluid_price r =
     \<lparr> month = sol_month r,
       chain = sol_chain r,
       source = sol_source r,
       token = sol_token r,
       token_amount = total_amount r,
       usd_value = calc_usd_value fluid_price r,
       num_transactions = sol_num_transactions r \<rparr>"

definition normalize_solana_data :: "solana_row list \<Rightarrow> real \<Rightarrow> expense_record list" where
  "normalize_solana_data solana_df fluid_price =
     (if solana_df = [] then []
      else map (normalize_solana_row fluid_price) solana_df)"

text \<open>
  \<^verbatim>\<open>sort_values('month', ascending=False)\<close>: the rows in non-increasing order of month.
  pandas' default sort is not stable, so the order among rows of one month is not part of
  the contract; the model fixes one such order.
\<close>

definition sort_values_month_desc :: "expense_record list \<Rightarrow> expense_record list" where
  "sort_values_month_desc df = rev (sort_key month df)"

text \<open>\<^verbatim>\<open>f"{e}"\<close> of an error that may be \<^verbatim>\<open>None\<close>.\<close>

definition fmt_error :: "error option \<Rightarrow> string" where
  "fmt_error e = (case e of None \<Rightarrow> ''None'' | Some s \<Rightarrow> s)"

text \<open>
  \<^verbatim>\<open>combine_all_expenses\<close>. The three calls it makes (\<^verbatim>\<open>get_fluid_price()\<close>,
  \<^verbatim>\<open>fetch_dune_monthly_expenses\<close>, \<^verbatim>\<open>aggregate_monthly_expenses\<close>) are modelled below
  and in the fetcher sections; here their results are the arguments. The concatenation of
  two frames without columns has no \<^verbatim>\<open>month\<close> column, so \<^verbatim>\<open>sort_values\<close> raises
  \<^verbatim>\<open>KeyError('month')\<close>, which the handler turns into a failure with price 0.30.
\<close>

definition combine_all_expenses ::
  "real \<Rightarrow> dune_row list \<times> bool \<times> error option
        \<Rightarrow> solana_row list \<times> bool \<times> error option
        \<Rightarrow> expense_record list \<times> real \<times> bool \<times> error option" where
  "combine_all_expenses fluid_price evm sol =
     (case evm of (evm_df, evm_success, evm_error) \<Rightarrow>
      if \<not> evm_success
      then ([], fluid_price, False, Some (''EVM fetch failed: '' @ fmt_error evm_error))
      else
        (case sol of (solana_df, sol_success, sol_error) \<Rightarrow>
         if \<not> sol_success
         then ([], fluid_price, False, Some (''Solana fetch failed: '' @ fmt_error sol_error))
         else
           (let evm_normalized = normalize_evm_data evm_df fluid_price;
                solana_normalized = normalize_solana_data solana_df fluid_price;
                combined = evm_normalized @ solana_normalized
            in if combined = []
               then ([], 3 / 10, False, Some (CHR 0x27 # ''month'' @ [CHR 0x27]))
               else (sort_values_month_desc combined, fluid_price, True, None))))"

text \<open>
  The values of the metrics dictionary: the integer literals of the empty case, float
  sums, the integer sum of the transaction counts, and the month.
\<close>

datatype metric = IntV int | FloatV real | MonthV datetime

text \<open>
  \<^verbatim>\<open>combined_df['month'].max()\<close> on a frame whose first row is \<open>r\<close> and whose other
  rows are \<open>rs\<close>.
\<close>

definition month_max :: "expense_record \<Rightarrow> expense_record list \<Rightarrow> datetime" where
  "month_max r rs = fold max (map month rs) (month r)"

definition usd_sum :: "expense_record list \<Rightarrow> real" where
  "usd_sum df = sum_list (map usd_value df)"

definition get_summary_metrics :: "expense_record list \<Rightarrow> (string \<rightharpoonup> metric)" where
  "get_summary_metrics combined_df =
     (case combined_df of
        [] \<Rightarrow> map_of
          [(''total_usd'', IntV 0),
           (''current_month_usd'', IntV 0),
           (''evm_total_usd'', IntV 0),
           (''solana_total_usd'', IntV 0),
           (''total_transactions'', IntV 0)]
      | r # rs \<Rightarrow>
          (let current_month = month_max r rs;
               current_month_data = filter (\<lambda>x. month x = current_month) combined_df
           in map_of
             [(''total_usd'', FloatV (usd_sum combined_df)),
              (''current_month_usd'', FloatV (usd_sum current_month_data)),
              (''evm_total_usd'',
                 FloatV (usd_sum (filter (\<lambda>x. source x = ''EVM'') combined_df))),
              (''solana_total_usd'',
                 FloatV (usd_sum (filter (\<lambda>x. source x = ''Solana'') combined_df))),
              (''total_transactions'', IntV (sum_list (map num_transactions combined_df))),
              (''current_month'', MonthV current_month)]))"

section \<open>Clock and cache files\<close>

text \<open>
  A reading of \<^verbatim>\<open>datetime.now()\<close>, in microseconds since a fixed origin, and
  \<^verbatim>\<open>(now - t).total_seconds() / 60\<close>.
\<close>

type_synonym instant = int

definition age_minutes :: "instant \<Rightarrow> instant \<Rightarrow> real" where
  "age_minutes now t = real_of_int (now - t) / 1000000 / 60"

text \<open>
  A cache file on disk: absent (\<^verbatim>\<open>os.path.exists\<close> is false), present with a content on
  which \<^verbatim>\<open>json.load\<close> raises, or present with a JSON object.
\<close>

datatype 'a cache_file = NoFile | BadJson | Json 'a

section \<open>fetchers/price\_fetcher.py\<close>

text \<open>The module-level dictionary \<^verbatim>\<open>_price_cache\<close>.\<close>

record price_cache =
  price :: "real option"
  timestamp :: "instant option"

definition CACHE_TTL_MINUTES_price :: real where
  "CACHE_TTL_MINUTES_price = 5"

text \<open>
  One side of a dex entry: \<^verbatim>\<open>.get('symbol')\<close>, and \<^verbatim>\<open>float(tok['price'])\<close>, which is
  \<open>None\<close> when the key is missing or the value does not convert (the call raises).
\<close>

record dex_token =
  symbol :: "string option"
  float_price :: "real option"

record dex =
  token0 :: "dex_token option"
  token1 :: "dex_token option"

text \<open>
  The request to the dexes endpoint: \<^verbatim>\<open>requests.get\<close>, \<^verbatim>\<open>raise_for_status\<close> or
  \<^verbatim>\<open>response.json()\<close> raises, or the listing is returned.
\<close>

datatype dexes_response = RequestFailed error | Dexes "dex list"

datatype scan = Found real | NotFound | Raised

definition is_fluid :: "dex_token option \<Rightarrow> bool" where
  "is_fluid tok = (case tok of None \<Rightarrow> False | Some t \<Rightarrow> symbol t = Some ''FLUID'')"

definition price_of :: "dex_token option \<Rightarrow> scan" where
  "price_of tok =
     (case tok of None \<Rightarrow> Raised
      | Some t \<Rightarrow> (case float_price t of None \<Rightarrow> Raised | Some p \<Rightarrow> Found p))"

text \<open>The \<^verbatim>\<open>for dex in dexes\<close> loop: the first FLUID side found, token0 before token1.\<close>

fun scan_dexes :: "dex list \<Rightarrow> scan" where
  "scan_dexes [] = NotFound"
| "scan_dexes (d # ds) =
     (if is_fluid (token0 d) then price_of (token0 d)
      else if is_fluid (token1 d) then price_of (token1 d)
      else scan_dexes ds)"

text \<open>Python truthiness of \<^verbatim>\<open>_price_cache['price']\<close>: \<^verbatim>\<open>None\<close> and \<^verbatim>\<open>0.0\<close> are false.\<close>

definition truthy_price :: "real option \<Rightarrow> bool" where
  "truthy_price p = (case p of None \<Rightarrow> False | Some x \<Rightarrow> x \<noteq> 0)"

text \<open>The \<^verbatim>\<open>except\<close> branch: the cached price if it is truthy, otherwise 0.30.\<close>

definition price_fallback :: "price_cache \<Rightarrow> real option \<times> price_cache" where
  "price_fallback c = (if truthy_price (price c) then (price c, c) else (Some (3 / 10), c))"

text \<open>
  \<^verbatim>\<open>get_fluid_price(use_cache)\<close>, on the clock reading \<open>now\<close> of the freshness check, the
  reading \<open>now'\<close> taken when the quote is stored, the answer of the upstream and the
  cache \<open>c\<close>; it gives the returned value (\<open>None\<close> is Python's \<^verbatim>\<open>None\<close>) and the cache
  afterwards.
\<close>

definition fetch_fluid_price ::
  "instant \<Rightarrow> dexes_response \<Rightarrow> price_cache \<Rightarrow> real option \<times> price_cache" where
  "fetch_fluid_price now' upstream c =
     (case upstream of
        RequestFailed e \<Rightarrow> price_fallback c
      | Dexes dexes \<Rightarrow>
          (case scan_dexes dexes of
             Found p \<Rightarrow> (Some p, \<lparr> price = Some p, timestamp = Some now' \<rparr>)
           | NotFound \<Rightarrow> (Some (3 / 10), c)
           | Raised \<Rightarrow> price_fallback c))"

definition get_fluid_price ::
  "bool \<Rightarrow> instant \<Rightarrow> instant \<Rightarrow> dexes_response \<Rightarrow> price_cache
     \<Rightarrow> real option \<times> price_cache" where
  "get_fluid_price use_cache now now' upstream c =
     (case timestamp c of
        Some ts \<Rightarrow>
          if use_cache \<and> age_minutes now ts < CACHE_TTL_MINUTES_price
          then (price c, c)
          else fetch_fluid_price now' upstream c
      | None \<Rightarrow> fetch_fluid_price now' upstream c)"

definition clear_price_cache :: "price_cache \<Rightarrow> price_cache" where
  "clear_price_cache c = \<lparr> price = None, timestamp = None \<rparr>"

section \<open>fetchers/dune\_fetcher.py: the cache\<close>

definition CACHE_TTL_MINUTES_dune :: real where
  "CACHE_TTL_MINUTES_dune = 60"

text \<open>
  The JSON object of the Dune cache file: \<^verbatim>\<open>datetime.fromisoformat(cache['last_updated'])\<close>
  (\<open>None\<close> when the key is missing or the string does not parse) and the records under
  \<^verbatim>\<open>cache['data']\<close> (\<open>None\<close> when the key is missing or the frame cannot be built).
\<close>

record dune_cache =
  dune_last_updated :: "instant option"
  dune_data :: "dune_row list option"

text \<open>
  Lines 91 and 92: the frame of the records and its \<^verbatim>\<open>month\<close> column. A frame built from
  no records has no \<^verbatim>\<open>month\<close> column, and \<^verbatim>\<open>df['month']\<close> raises.
\<close>

definition dune_frame :: "dune_row list option \<Rightarrow> dune_row list option" where
  "dune_frame d = (case d of None \<Rightarrow> None | Some [] \<Rightarrow> None | Some (r # rs) \<Rightarrow> Some (r # rs))"

definition load_cache_dune ::
  "instant \<Rightarrow> dune_cache cache_file \<Rightarrow> (dune_row list \<times> instant) option" where
  "load_cache_dune now file =
     (case file of
        NoFile \<Rightarrow> None
      | BadJson \<Rightarrow> None
      | Json cache \<Rightarrow>
          (case dune_last_updated cache of
             None \<Rightarrow> None
           | Some last_updated \<Rightarrow>
               if age_minutes now last_updated < CACHE_TTL_MINUTES_dune
               then (case dune_frame (dune_data cache) of
                       None \<Rightarrow> None
                     | Some df \<Rightarrow> Some (df, last_updated))
               else None))"

definition save_cache_dune :: "instant \<Rightarrow> dune_row list \<Rightarrow> dune_cache cache_file" where
  "save_cache_dune now df = Json \<lparr> dune_last_updated = Some now, dune_data = Some df \<rparr>"

section \<open>fetchers/solana\_fetcher.py\<close>

definition MIN_VALUE_USD :: real where
  "MIN_VALUE_USD = 1000"

definition ADDRESS_TAGS :: "string \<rightharpoonup> string" where
  "ADDRESS_TAGS = map_of
     [(''5AZYLkiU4SPYDeRMcPbPRPmiz2Ny85jWFeV4xmQsVBNo'', ''Fluid Team''),
      (''HUBLSmfDxXxxzgg4KM6Q5onHVwBG5KeKjeA2BnvE5D9r'', ''Fluid Team''),
      (''7b1zZUuae2F56e66GqpkKe1Tq1BK2ePRRuGGr8ahe2JB'', ''JUP Team''),
      (''FH9bgRZrEGFA1d4859wSBdNnHgtU5ZDqFUPccHDnYQ3p'', ''Maple''),
      (''DVBfCpHoAtVgcVLFHyUgXaWg5ZaKU8CkekXu23ZD4iod'', ''Gauntlet''),
      (''fr6yQkDmWy6R6pecbUsxXaw6EvRJznZ2HsK5frQgud8'', ''USDG Team''),
      (''8sjM83a4u2M8YZYshLGKzYxh1VHFfbgtaytwaoEg4bUJ'', ''Jito Team''),
      (''8JmDPG5BFQ6gpUPJV9xBixYJLqTKCSNotkXksTmNsQfj'', ''Sky Team''),
      (''62SJTxjWbyaPei1HPW9mFX7KMYCEp7Z9zwiL4hGa8WQv'', ''LBTC Team''),
      (''EeQmNqm1RcQnee8LTyx6ccVG9FnR8TezQuw2JXq2LC1T'', ''Sanctum INF Team''),
      (''41zCUJsKk6cMB94DDtm99qWmyMZfp4GkAhhuz4xTwePu'', ''PST Team''),
      (''JANAjsZKJhtHF9PUF8cwjVp5oQjdcHYiGiFgc8TWQjp2'', ''Binance Campaign''),
      (''3ssDYFbTpACkshGeYHMBovxB4aE2G6fbZNeVChi85J1k'', ''Binance Campaign''),
      (''7s1da8DduuBFqGra5bJBjpnvL5E9mGzCuMk1Qkh4or2Z'', ''Liquidity Layer'')]"

subsection \<open>The SOL price\<close>

record vault_token =
  vault_symbol :: "string option"
  vault_price :: "real option"

record vault =
  supplyToken :: "vault_token option"

datatype vaults_response = VaultsFailed | Vaults "vault list"

text \<open>
  The loop of \<^verbatim>\<open>get_sol_price\<close>: the price of the first vault whose supply token is WSOL;
  150.0 when \<^verbatim>\<open>float(vault['supplyToken']['price'])\<close> raises or no vault matches.
\<close>

fun scan_vaults :: "vault list \<Rightarrow> real" where
  "scan_vaults [] = 150"
| "scan_vaults (v # vs) =
     (case supplyToken v of
        None \<Rightarrow> scan_vaults vs
      | Some t \<Rightarrow>
          if vault_symbol t = Some ''WSOL''
          then (case vault_price t of None \<Rightarrow> 150 | Some p \<Rightarrow> p)
          else scan_vaults vs)"

definition get_sol_price :: "vaults_response \<Rightarrow> real" where
  "get_sol_price resp = (case resp of VaultsFailed \<Rightarrow> 150 | Vaults vaults \<Rightarrow> scan_vaults vaults)"

subsection \<open>Raw transfers and processed transactions\<close>

text \<open>
  A row of the Solscan answer. Each field is the entry under the key of that name, absent
  when it is \<open>None\<close>: the code reads every one with \<^verbatim>\<open>tx.get(key, default)\<close>. The entry
  \<open>time\<close> holds what \<^verbatim>\<open>datetime.fromisoformat\<close> makes of the string (with
  \<^verbatim>\<open>Z\<close> replaced): the timestamp, or the message of the \<^verbatim>\<open>ValueError\<close> it raises.
\<close>

record raw_transfer =
  flow :: "string option"
  from_address :: "string option"
  to_address :: "string option"
  token_address :: "string option"
  amount_raw :: "int option"
  token_decimals :: "nat option"
  tx_value :: "real option"
  time :: "(error + datetime) option"
  trans_id :: "string option"
  raw_block_id :: "int option"

record token_info =
  token_symbol :: "string option"

record metadata =
  tokens :: "(string \<rightharpoonup> token_info) option"

text \<open>An entry of the processed list: the dictionary appended at lines 157 to 167.\<close>

record transaction =
  signature :: string
  tx_timestamp :: datetime
  tx_type :: string
  tx_token :: string
  amount :: real
  value_usd :: real
  counterparty :: string
  team :: string
  block_id :: int

definition tx_flow :: "raw_transfer \<Rightarrow> string" where
  "tx_flow tx = dict_get (flow tx) []"

definition tx_type_of :: "raw_transfer \<Rightarrow> string" where
  "tx_type_of tx = (if tx_flow tx = ''in'' then ''Inflow'' else ''Outflow'')"

definition counterparty_of :: "raw_transfer \<Rightarrow> string" where
  "counterparty_of tx =
     (if tx_flow tx = ''in'' then dict_get (from_address tx) []
      else dict_get (to_address tx) [])"

definition team_of :: "raw_transfer \<Rightarrow> string" where
  "team_of tx = dict_get (ADDRESS_TAGS (counterparty_of tx)) ''Unknown''"

definition token_symbol_of :: "metadata \<Rightarrow> raw_transfer \<Rightarrow> string" where
  "token_symbol_of md tx =
     (let tokens_meta = dict_get (tokens md) Map.empty;
          token_info = dict_get (tokens_meta (dict_get (token_address tx) []))
                         \<lparr> token_symbol = None \<rparr>
      in dict_get (token_symbol token_info) ''UNKNOWN'')"

definition amount_of :: "raw_transfer \<Rightarrow> real" where
  "amount_of tx =
     real_of_int (dict_get (amount_raw tx) 0) / 10 ^ dict_get (token_decimals tx) 6"

text \<open>Lines 145 to 150: the computed USD value of a transfer.\<close>

definition value_usd_of :: "real \<Rightarrow> metadata \<Rightarrow> raw_transfer \<Rightarrow> real" where
  "value_usd_of sol_price md tx =
     (if token_symbol_of md tx \<in> set [''USDC'', ''USDT'', ''USDS'', ''USDG'', ''EURC'']
      then amount_of tx * 1
      else if token_symbol_of md tx \<in> set [''SOL'', ''WSOL'']
      then amount_of tx * sol_price
      else dict_get (tx_value tx) 0)"

text \<open>\<^verbatim>\<open>datetime.fromisoformat(tx.get('time', '').replace('Z', '+00:00'))\<close>.\<close>

definition parse_time :: "raw_transfer \<Rightarrow> error + datetime" where
  "parse_time tx =
     dict_get (time tx) (Inl (''Invalid isoformat string: '' @ [CHR 0x27, CHR 0x27]))"

definition make_transaction ::
  "real \<Rightarrow> metadata \<Rightarrow> raw_transfer \<Rightarrow> datetime \<Rightarrow> transaction" where
  "make_transaction sol_price md tx ts =
     \<lparr> signature = dict_get (trans_id tx) [],
       tx_timestamp = ts,
       tx_type = tx_type_of tx,
       tx_token = token_symbol_of md tx,
       amount = amount_of tx,
       value_usd = value_usd_of sol_price md tx,
       counterparty = counterparty_of tx,
       team = team_of tx,
       block_id = dict_get (raw_block_id tx) 0 \<rparr>"

text \<open>
  The loop of \<^verbatim>\<open>process_transactions\<close> over \<^verbatim>\<open>raw_data\<close>, with the list \<^verbatim>\<open>processed\<close>
  built so far. \<open>Inl\<close> is the exception that leaves the function.
\<close>

fun process_loop ::
  "real \<Rightarrow> metadata \<Rightarrow> raw_transfer list \<Rightarrow> transaction list \<Rightarrow> error + transaction list" where
  "process_loop sol_price md [] processed = Inr processed"
| "process_loop sol_price md (tx # rest) processed =
     (if value_usd_of sol_price md tx < MIN_VALUE_USD
      then process_loop sol_price md rest processed
      else (case parse_time tx of
              Inl e \<Rightarrow> Inl e
            | Inr ts \<Rightarrow>
                process_loop sol_price md rest
                  (processed @ [make_transaction sol_price md tx ts])))"

text \<open>
  \<^verbatim>\<open>process_transactions(raw_data, metadata)\<close>; the answer of the vault API to the call of
  \<^verbatim>\<open>get_sol_price()\<close> it makes is the first argument.
\<close>

definition process_transactions ::
  "vaults_response \<Rightarrow> raw_transfer list \<Rightarrow> metadata \<Rightarrow> error + transaction list" where
  "process_transactions vault_api raw_data md =
     process_loop (get_sol_price vault_api) md raw_data []"

subsection \<open>The Solscan request\<close>

text \<open>
  The answer to one page request: an exception of \<^verbatim>\<open>requests\<close> with its message, or the
  JSON object with its entries \<^verbatim>\<open>success\<close>, \<^verbatim>\<open>data\<close> and \<^verbatim>\<open>metadata\<close>.
\<close>

record solscan_result =
  res_success :: "bool option"
  res_data :: "raw_transfer list option"
  res_metadata :: "metadata option"

datatype solscan_response = RequestException error | Result solscan_result

definition fetch_from_solscan ::
  "string option \<Rightarrow> solscan_response
     \<Rightarrow> raw_transfer list \<times> metadata \<times> bool \<times> error option" where
  "fetch_from_solscan key response =
     (if key = None \<or> key = Some []
      then ([], \<lparr> tokens = None \<rparr>, False, Some ''SOLSCAN_API_KEY not found'')
      else (case response of
              RequestException e \<Rightarrow> ([], \<lparr> tokens = None \<rparr>, False, Some e)
            | Result result \<Rightarrow>
                if res_success result \<noteq> Some True
                then ([], \<lparr> tokens = None \<rparr>, False, Some ''API returned success=false'')
                else (dict_get (res_data result) [],
                      dict_get (res_metadata result) \<lparr> tokens = None \<rparr>,
                      True, None)))"

subsection \<open>The Solana cache\<close>

text \<open>
  The JSON object of the Solana cache file: the list under \<^verbatim>\<open>transactions\<close> with its
  timestamps parsed (\<open>None\<close> when the key is missing or a timestamp does not parse), and
  the entry \<^verbatim>\<open>last_updated\<close> (\<open>None\<close> when the key is missing).
\<close>

record solana_cache =
  cached_transactions :: "transaction list option"
  solana_last_updated :: "instant option"

definition load_cache_solana ::
  "solana_cache cache_file \<Rightarrow> (transaction list \<times> instant) option" where
  "load_cache_solana file =
     (case file of
        NoFile \<Rightarrow> None
      | BadJson \<Rightarrow> None
      | Json cache_data \<Rightarrow>
          (case cached_transactions cache_data of
             None \<Rightarrow> None
           | Some transactions \<Rightarrow>
               (case solana_last_updated cache_data of
                  None \<Rightarrow> None
                | Some last_updated \<Rightarrow> Some (transactions, last_updated))))"

definition save_cache_solana :: "instant \<Rightarrow> transaction list \<Rightarrow> solana_cache cache_file" where
  "save_cache_solana now transactions =
     Json \<lparr> cached_transactions = Some transactions, solana_last_updated = Some now \<rparr>"

subsection \<open>Fetching and aggregating\<close>

text \<open>
  What \<^verbatim>\<open>fetch_all_transactions\<close> reads: the cache file, the API key, the answer of
  Solscan to the request for each page, the answer of the vault API during the processing
  of each page, and the clock when the cache is written.
\<close>

record world =
  cache_file :: "solana_cache cache_file"
  api_key :: "string option"
  solscan :: "nat \<Rightarrow> solscan_response"
  vault_api :: "nat \<Rightarrow> vaults_response"
  clock :: instant

text \<open>
  The loop \<^verbatim>\<open>for page in range(1, max_pages + 1)\<close>, from page \<open>page\<close> with \<open>n\<close> pages
  left and \<^verbatim>\<open>all_transactions\<close> so far. \<open>Inl\<close> is the error of the early
  \<^verbatim>\<open>return [], False, error\<close> or of the exception handler; \<open>Inr\<close> is the list when the
  loop ends.
\<close>

fun fetch_pages ::
  "world \<Rightarrow> nat \<Rightarrow> nat \<Rightarrow> transaction list \<Rightarrow> error option + transaction list" where
  "fetch_pages w page 0 all_transactions = Inr all_transactions"
| "fetch_pages w page (Suc n) all_transactions =
     (case fetch_from_solscan (api_key w) (solscan w page) of
        (raw_data, md, success, err) \<Rightarrow>
          if \<not> success then Inl err
          else if raw_data = [] then Inr all_transactions
          else (case process_transactions (vault_api w page) raw_data md of
                  Inl e \<Rightarrow> Inl (Some e)
                | Inr processed \<Rightarrow>
                    fetch_pages w (Suc page) n (all_transactions @ processed)))"

text \<open>
  \<^verbatim>\<open>fetch_all_transactions(max_pages)\<close>: the returned triple and the cache file afterwards.
  \<open>fetch_uncached\<close> is the part after the cache check. Writing the cache file is taken
  to succeed.
\<close>

definition fetch_uncached ::
  "world \<Rightarrow> nat \<Rightarrow> (transaction list \<times> bool \<times> error option) \<times> solana_cache cache_file" where
  "fetch_uncached w max_pages =
     (case fetch_pages w 1 max_pages [] of
        Inl err \<Rightarrow> (([], False, err), cache_file w)
      | Inr all_transactions \<Rightarrow>
          ((all_transactions, True, None), save_cache_solana (clock w) all_transactions))"

definition fetch_all_transactions ::
  "world \<Rightarrow> nat \<Rightarrow> (transaction list \<times> bool \<times> error option) \<times> solana_cache cache_file" where
  "fetch_all_transactions w max_pages =
     (case load_cache_solana (cache_file w) of
        None \<Rightarrow> fetch_uncached w max_pages
      | Some (cached, last_updated) \<Rightarrow>
          if cached \<noteq> [] then ((cached, True, None), cache_file w)
          else fetch_uncached w max_pages)"

definition month_token :: "transaction \<Rightarrow> datetime \<times> string" where
  "month_token t = (to_month (tx_timestamp t), tx_token t)"

text \<open>
  \<^verbatim>\<open>df.groupby(['month', 'token']).agg(...)\<close> with the columns renamed and the two constant
  columns added: one row per key, the keys in increasing order.
\<close>

definition group_row :: "transaction list \<Rightarrow> datetime \<times> string \<Rightarrow> solana_row" where
  "group_row df k =
     (let g = filter (\<lambda>t. month_token t = k) df
      in \<lparr> sol_month = fst k,
           sol_token = snd k,
           total_amount = sum_list (map amount g),
           total_usd = sum_list (map value_usd g),
           sol_num_transactions = int (length g),
           sol_chain = ''solana'',
           sol_source = ''Solana'' \<rparr>)"

definition groupby_month_token :: "transaction list \<Rightarrow> solana_row list" where
  "groupby_month_token df = map (group_row df) (sort (remdups (map month_token df)))"

text \<open>Lines 227 to 260: from the fetched transactions to the monthly frame.\<close>

definition aggregate_transactions ::
  "transaction list \<Rightarrow> solana_row list \<times> bool \<times> error option" where
  "aggregate_transactions transactions =
     (if transactions = [] then ([], True, Some ''No transactions found'')
      else
        (let df = filter (\<lambda>t. tx_type t = ''Outflow'') transactions;
             df' = filter (\<lambda>t. tx_token t \<noteq> ''USDC'') df
         in if df' = [] then ([], True, Some ''No non-USDC outflows found'')
            else (groupby_month_token df', True, None)))"

definition aggregate_monthly_expenses ::
  "world \<Rightarrow> (solana_row list \<times> bool \<times> error option) \<times> solana_cache cache_file" where
  "aggregate_monthly_expenses w =
     (case fetch_all_transactions w 5 of
        ((transactions, success, err), file') \<Rightarrow>
          if \<not> success then (([], False, err), file')
          else (aggregate_transactions transactions, file'))"

subsection \<open>Reading the pages\<close>

text \<open>
  The four components of what \<^verbatim>\<open>fetch_from_solscan\<close> returns for a page, and the result
  of \<^verbatim>\<open>process_transactions\<close> on that page.
\<close>

definition page_success :: "world \<Rightarrow> nat \<Rightarrow> bool" where
  "page_success w page =
     (case fetch_from_solscan (api_key w) (solscan w page) of
        (raw_data, md, success, err) \<Rightarrow> success)"

definition page_error :: "world \<Rightarrow> nat \<Rightarrow> error option" where
  "page_error w page =
     (case fetch_from_solscan (api_key w) (solscan w page) of
        (raw_data, md, success, err) \<Rightarrow> err)"

definition page_data :: "world \<Rightarrow> nat \<Rightarrow> raw_transfer list" where
  "page_data w page =
     (case fetch_from_solscan (api_key w) (solscan w page) of
        (raw_data, md, success, err) \<Rightarrow> raw_data)"

definition page_processed :: "world \<Rightarrow> nat \<Rightarrow> error + transaction list" where
  "page_processed w page =
     (case fetch_from_solscan (api_key w) (solscan w page) of
        (raw_data, md, success, err) \<Rightarrow> process_transactions (vault_api w page) raw_data md)"

section \<open>Concrete inputs\<close>

definition example_row :: dune_row where
  "example_row =
     \<lparr> evm_month = (2024, 5, 1, 0), evm_chain = ''ethereum'', total_claims = 10,
       total_fluid_claimed = 1000, evm_source = ''EVM'' \<rparr>"

definition example_frame :: "expense_record list" where
  "example_frame =
     [\<lparr> month = (2024, 5, 1, 0), chain = ''ethereum'', source = ''EVM'', token = ''FLUID'',
         token_amount = 1000, usd_value = 300, num_transactions = 10 \<rparr>,
      \<lparr> month = (2024, 6, 1, 0), chain = ''solana'', source = ''Solana'', token = ''WSOL'',
         token_amount = 10, usd_value = 1500, num_transactions = 1 \<rparr>]"

definition example_dune_df :: "dune_row list" where
  "example_dune_df =
     [\<lparr> evm_month = (2024, 5, 1, 0), evm_chain = ''ethereum'', total_claims = 10,
         total_fluid_claimed = 1000, evm_source = ''EVM'' \<rparr>]"

definition example_solana_df :: "solana_row list" where
  "example_solana_df =
     [\<lparr> sol_month = (2024, 6, 1, 0), sol_token = ''WSOL'', total_amount = 10,
         total_usd = 1500, sol_num_transactions = 1, sol_chain = ''solana'',
         sol_source = ''Solana'' \<rparr>,
      \<lparr> sol_month = (2024, 4, 1, 0), sol_token = ''USDS'', total_amount = 2000,
         total_usd = 2000, sol_num_transactions = 2, sol_chain = ''solana'',
         sol_source = ''Solana'' \<rparr>]"

definition example_transactions :: "transaction list" where
  "example_transactions =
     [\<lparr> signature = ''s1'', tx_timestamp = (2024, 5, 10, 0), tx_type = ''Outflow'',
         tx_token = ''USDC'', amount = 2000, value_usd = 2000, counterparty = ''a'',
         team = ''Unknown'', block_id = 1 \<rparr>,
      \<lparr> signature = ''s2'', tx_timestamp = (2024, 5, 20, 0), tx_type = ''Outflow'',
         tx_token = ''WSOL'', amount = 10, value_usd = 1500, counterparty = ''b'',
         team = ''Unknown'', block_id = 2 \<rparr>,
      \<lparr> signature = ''s3'', tx_timestamp = (2024, 5, 21, 0), tx_type = ''Inflow'',
         tx_token = ''FLUID'', amount = 10000, value_usd = 5000, counterparty = ''c'',
         team = ''Unknown'', block_id = 3 \<rparr>]"

definition example_metadata :: metadata where
  "example_metadata =
     \<lparr> tokens = Some (map_of
         [(''usdc_mint'', \<lparr> token_symbol = Some ''USDC'' \<rparr>),
          (''wsol_mint'', \<lparr> token_symbol = Some ''WSOL'' \<rparr>)]) \<rparr>"

definition example_transfer :: "int \<Rightarrow> string \<Rightarrow> (error + datetime) option \<Rightarrow> raw_transfer" where
  "example_transfer n sig t =
     \<lparr> flow = Some ''out'', from_address = Some ''treasury'', to_address = Some ''payee'',
       token_address = Some ''usdc_mint'', amount_raw = Some n, token_decimals = Some 6,
       tx_value = None, time = t, trans_id = Some sig, raw_block_id = Some 7 \<rparr>"

definition example_world :: "solscan_response \<Rightarrow> world" where
  "example_world second_page =
     \<lparr> cache_file = NoFile,
       api_key = Some ''key'',
       solscan = (\<lambda>page. if page = 1
          then Result \<lparr> res_success = Some True,
                 res_data = Some [example_transfer 999999999 ''below'' None,
                                  example_transfer 1000000000 ''exact''
                                    (Some (Inr (2024, 5, 20, 0)))],
                 res_metadata = Some example_metadata \<rparr>
          else second_page),
       vault_api = (\<lambda>page. VaultsFailed),
       clock = 42 \<rparr>"

definition example_kept :: transaction where
  "example_kept =
     make_transaction 150 example_metadata
       (example_transfer 1000000000 ''exact'' (Some (Inr (2024, 5, 20, 0)))) (2024, 5, 20, 0)"

definition empty_page :: solscan_response where
  "empty_page = Result \<lparr> res_success = Some True, res_data = Some [], res_metadata = None \<rparr>"

definition cached_world :: world where
  "cached_world =
     \<lparr> cache_file = Json \<lparr> cached_transactions = Some example_transactions,
                           solana_last_updated = Some 0 \<rparr>,
       api_key = None,
       solscan = (\<lambda>page. RequestException ''unreachable''),
       vault_api = (\<lambda>page. VaultsFailed),
       clock = 42 \<rparr>"

definition example_monthly :: solana_row where
  "example_monthly =
     \<lparr> sol_month = (2024, 5, 1, 0), sol_token = ''WSOL'', total_amount = 10,
       total_usd = 1500, sol_num_transactions = 1, sol_chain = ''solana'',
       sol_source = ''Solana'' \<rparr>"

definition fluid_listing :: "real \<Rightarrow> dexes_response" where
  "fluid_listing p =
     Dexes [\<lparr> token0 = Some \<lparr> symbol = Some ''ETH'', float_price = Some 2500 \<rparr>,
              token1 = Some \<lparr> symbol = Some ''FLUID'', float_price = Some p \<rparr> \<rparr>]"

definition other_listing :: dexes_response where
  "other_listing =
     Dexes [\<lparr> token0 = Some \<lparr> symbol = Some ''ETH'', float_price = Some 2500 \<rparr>,
              token1 = Some \<lparr> symbol = Some ''USDC'', float_price = Some 1 \<rparr> \<rparr>]"

definition stored_quote :: price_cache where
  "stored_quote = \<lparr> price = Some (1 / 2), timestamp = Some 0 \<rparr>"

section \<open>Normalisation and the combined frame\<close>

text \<open>
  Claim C8. For every EVM frame and price, \<^verbatim>\<open>normalize_evm_data\<close> sets the USD value of
  each row to the claimed FLUID amount times the price, the token to FLUID, and the number
  of transactions to the number of claims. The row of May 2024 on ethereum with 10 claims
  and 1000 FLUID claimed, at price 0.30, becomes a record of 300 USD, token FLUID and
  10 transactions.
\<close>

theorem normalize_evm_data_usd_token:
  "map usd_value (normalize_evm_data dune_df fluid_price)
     = map (\<lambda>r. total_fluid_claimed r * fluid_price) dune_df
   \<and> map token (normalize_evm_data dune_df fluid_price) = map (\<lambda>r. ''FLUID'') dune_df
   \<and> map num_transactions (normalize_evm_data dune_df fluid_price) = map total_claims dune_df
   \<and> normalize_evm_data
        [\<lparr> evm_month = (2024, 5, 1, 0), evm_chain = ''ethereum'', total_claims = 10,
            total_fluid_claimed = 1000, evm_source = ''EVM'' \<rparr>] (3 / 10)
      = [\<lparr> month = (2024, 5, 1, 0), chain = ''ethereum'', source = ''EVM'', token = ''FLUID'',
            token_amount = 1000, usd_value = 300, num_transactions = 10 \<rparr>]"
  by (simp add: normalize_evm_data_def normalize_evm_row_def comp_def)

text \<open>
  Claim C7. For every row of the monthly Solana frame, \<^verbatim>\<open>normalize_solana_data\<close> sets the
  USD value to the total amount times the FLUID price when the token is FLUID, SOL or WSOL,
  and to the row's \<^verbatim>\<open>total_usd\<close> unchanged for every other token.
\<close>

theorem normalize_solana_data_usd_value:
  "map usd_value (normalize_solana_data solana_df fluid_price)
     = map (\<lambda>row. if sol_token row = ''FLUID'' \<or> sol_token row = ''SOL'' \<or> sol_token row = ''WSOL''
                   then total_amount row * fluid_price
                   else total_usd row) solana_df
   \<and> length (normalize_solana_data solana_df fluid_price) = length solana_df
   \<and> map token (normalize_solana_data solana_df fluid_price) = map sol_token solana_df"
  by (simp add: normalize_solana_data_def normalize_solana_row_def calc_usd_value_def comp_def)

lemma month_max_eq: "month_max r rs = Max (month ` set (r # rs))"
proof -
  have "fold max (map month rs) (month r) = Max (set (month r # map month rs))"
    by (rule Max.set_eq_fold [symmetric])
  then show ?thesis by (simp add: month_max_def)
qed

text \<open>
  Claim C10. On the empty frame \<^verbatim>\<open>get_summary_metrics\<close> returns a dictionary with exactly
  the five numeric entries, all 0, and no entry \<^verbatim>\<open>current_month\<close>; on a frame with at
  least one row the dictionary has the entry \<^verbatim>\<open>current_month\<close> as well, equal to the
  greatest month of the frame.
\<close>

theorem get_summary_metrics_shapes:
  "get_summary_metrics [] ''total_usd'' = Some (IntV 0)
   \<and> get_summary_metrics [] ''current_month_usd'' = Some (IntV 0)
   \<and> get_summary_metrics [] ''evm_total_usd'' = Some (IntV 0)
   \<and> get_summary_metrics [] ''solana_total_usd'' = Some (IntV 0)
   \<and> get_summary_metrics [] ''total_transactions'' = Some (IntV 0)
   \<and> get_summary_metrics [] ''current_month'' = None
   \<and> dom (get_summary_metrics []) =
       {''total_usd'', ''current_month_usd'', ''evm_total_usd'', ''solana_total_usd'',
        ''total_transactions''}
   \<and> (combined_df \<noteq> [] \<longrightarrow>
        get_summary_metrics combined_df ''current_month''
          = Some (MonthV (Max (month ` set combined_df)))
        \<and> dom (get_summary_metrics combined_df) =
            {''total_usd'', ''current_month_usd'', ''evm_total_usd'', ''solana_total_usd'',
             ''total_transactions'', ''current_month''})"
proof -
  have e: "get_summary_metrics [] = map_of
          [(''total_usd'', IntV 0),
           (''current_month_usd'', IntV 0),
           (''evm_total_usd'', IntV 0),
           (''solana_total_usd'', IntV 0),
           (''total_transactions'', IntV 0)]"
    by (simp add: get_summary_metrics_def)
  have ne: "get_summary_metrics combined_df ''current_month''
          = Some (MonthV (Max (month ` set combined_df)))
        \<and> dom (get_summary_metrics combined_df) =
            {''total_usd'', ''current_month_usd'', ''evm_total_usd'', ''solana_total_usd'',
             ''total_transactions'', ''current_month''}" if "combined_df \<noteq> []"
  proof -
    from that obtain r rs where c: "combined_df = r # rs" by (cases combined_df) auto
    show ?thesis
      unfolding c get_summary_metrics_def list.case Let_def month_max_eq dom_map_of_conv_image_fst
      by (simp add: insert_commute)
  qed
  show ?thesis unfolding e dom_map_of_conv_image_fst using ne by (simp add: insert_commute)
qed

text \<open>The metrics of a frame of two records, of May and June 2024.\<close>

theorem get_summary_metrics_shapes_witness:
  "example_frame \<noteq> []
   \<and> get_summary_metrics example_frame ''current_month'' = Some (MonthV (2024, 6, 1, 0))
   \<and> dom (get_summary_metrics example_frame) =
            {''total_usd'', ''current_month_usd'', ''evm_total_usd'', ''solana_total_usd'',
             ''total_transactions'', ''current_month''}"
  using get_summary_metrics_shapes [of example_frame]
  by (simp add: example_frame_def)

lemma sorted_wrt_rev_sort_key:
  "sorted_wrt (\<lambda>a b. f b \<le> f a) (rev (sort_key f xs))"
proof -
  have "sorted (map f (sort_key f xs))" by simp
  then have "sorted_wrt (\<lambda>a b. f a \<le> f b) (sort_key f xs)"
    by (simp add: sorted_wrt_map)
  then show ?thesis by (simp add: sorted_wrt_rev)
qed

text \<open>
  Claim C9. When both fetches succeed and both normalised frames have rows,
  \<^verbatim>\<open>combine_all_expenses\<close> succeeds with the given price; the combined frame has as many
  rows as the two normalised frames together, holds exactly their rows, and is ordered by
  month, latest first.
\<close>

theorem combine_all_expenses_count_sorted:
  assumes "normalize_evm_data evm_df fluid_price \<noteq> []"
    and "normalize_solana_data solana_df fluid_price \<noteq> []"
  shows "snd (combine_all_expenses fluid_price (evm_df, True, e1) (solana_df, True, e2))
           = (fluid_price, True, None)
     \<and> length (fst (combine_all_expenses fluid_price (evm_df, True, e1) (solana_df, True, e2)))
         = length (normalize_evm_data evm_df fluid_price)
           + length (normalize_solana_data solana_df fluid_price)
     \<and> sorted_wrt (\<lambda>a b. month b \<le> month a)
         (fst (combine_all_expenses fluid_price (evm_df, True, e1) (solana_df, True, e2)))
     \<and> set (fst (combine_all_expenses fluid_price (evm_df, True, e1) (solana_df, True, e2)))
         = set (normalize_evm_data evm_df fluid_price)
           \<union> set (normalize_solana_data solana_df fluid_price)"
  using assms
  by (simp add: combine_all_expenses_def Let_def sort_values_month_desc_def
      sorted_wrt_rev_sort_key)

text \<open>One EVM row of May 2024 and two Solana rows of June and April 2024.\<close>

theorem combine_all_expenses_count_sorted_witness:
  "normalize_evm_data example_dune_df (3 / 10) \<noteq> []
   \<and> normalize_solana_data example_solana_df (3 / 10) \<noteq> []
   \<and> length (fst (combine_all_expenses (3 / 10) (example_dune_df, True, None)
                      (example_solana_df, True, None))) = 3
   \<and> map month (fst (combine_all_expenses (3 / 10) (example_dune_df, True, None)
                      (example_solana_df, True, None)))
      = [(2024, 6, 1, 0), (2024, 5, 1, 0), (2024, 4, 1, 0)]"
proof -
  have h1: "normalize_evm_data example_dune_df (3 / 10) \<noteq> []"
    by (simp add: normalize_evm_data_def example_dune_df_def)
  have h2: "normalize_solana_data example_solana_df (3 / 10) \<noteq> []"
    by (simp add: normalize_solana_data_def example_solana_df_def)
  have m: "map month (fst (combine_all_expenses (3 / 10) (example_dune_df, True, None)
                      (example_solana_df, True, None)))
      = [(2024, 6, 1, 0), (2024, 5, 1, 0), (2024, 4, 1, 0)]"
    by (simp add: combine_all_expenses_def Let_def sort_values_month_desc_def
        normalize_evm_data_def normalize_solana_data_def example_dune_df_def
        example_solana_df_def normalize_evm_row_def normalize_solana_row_def)
  show ?thesis
    using combine_all_expenses_count_sorted [OF h1 h2, of None None] h1 h2 m
    by (simp add: normalize_evm_data_def normalize_solana_data_def example_dune_df_def
        example_solana_df_def)
qed

section \<open>The FLUID price\<close>

lemma price_fallback_number: "fst (price_fallback c) \<noteq> None"
proof (cases "truthy_price (price c)")
  case True
  then have "price c \<noteq> None" by (cases "price c") (simp_all add: truthy_price_def)
  with True show ?thesis by (simp add: price_fallback_def del: not_None_eq)
next
  case False
  then show ?thesis by (simp add: price_fallback_def)
qed

lemma fetch_fluid_price_number:
  "fst (fetch_fluid_price now' upstream c) \<noteq> None"
proof (cases upstream)
  case (RequestFailed e)
  then show ?thesis
    using price_fallback_number [of c] by (simp add: fetch_fluid_price_def del: not_None_eq)
next
  case (Dexes dexes)
  then show ?thesis
    using price_fallback_number [of c]
    by (cases "scan_dexes dexes") (simp_all add: fetch_fluid_price_def del: not_None_eq)
qed

text \<open>
  In every state the module can reach, a stored timestamp comes with a stored price; then
  \<^verbatim>\<open>get_fluid_price\<close> returns a number, and the state it leaves has the property again.
\<close>

lemma get_fluid_price_number:
  assumes "timestamp c \<noteq> None \<longrightarrow> price c \<noteq> None"
  shows "fst (get_fluid_price use_cache now now' upstream c) \<noteq> None"
proof (cases "timestamp c")
  case None
  then show ?thesis
    using fetch_fluid_price_number [of now' upstream c]
    by (simp add: get_fluid_price_def del: not_None_eq)
next
  case (Some ts)
  with assms have "price c \<noteq> None" by simp
  with Some show ?thesis
    using fetch_fluid_price_number [of now' upstream c]
    by (simp add: get_fluid_price_def del: not_None_eq)
qed

lemma get_fluid_price_keeps_invariant:
  assumes "timestamp c \<noteq> None \<longrightarrow> price c \<noteq> None"
    and "c' = snd (get_fluid_price use_cache now now' upstream c)"
  shows "timestamp c' \<noteq> None \<longrightarrow> price c' \<noteq> None"
  using assms
  by (auto simp: get_fluid_price_def fetch_fluid_price_def price_fallback_def
      split: option.splits dexes_response.splits scan.splits if_splits)

lemma get_fluid_price_unfold:
  "get_fluid_price use_cache now now' upstream c =
     (if use_cache \<and> (\<exists>ts. timestamp c = Some ts \<and> age_minutes now ts < 5)
      then (price c, c)
      else fetch_fluid_price now' upstream c)"
  by (cases "timestamp c") (simp_all add: get_fluid_price_def CACHE_TTL_MINUTES_price_def)

lemma get_fluid_price_stale:
  assumes "\<not> (use_cache \<and> (\<exists>t. timestamp c = Some t \<and> age_minutes now t < 5))"
  shows "get_fluid_price use_cache now now' upstream c = fetch_fluid_price now' upstream c"
  unfolding get_fluid_price_unfold using assms by (rule if_not_P)

text \<open>
  The scan finds nothing exactly when no entry of the listing has FLUID on either side, and
  a price it finds is that of a FLUID side of some entry.
\<close>

lemma scan_dexes_NotFound:
  "scan_dexes dexes = NotFound
     \<longleftrightarrow> (\<forall>d \<in> set dexes. \<not> is_fluid (token0 d) \<and> \<not> is_fluid (token1 d))"
proof (induction dexes)
  case Nil
  then show ?case by simp
next
  case (Cons d ds)
  have "price_of tok \<noteq> NotFound" for tok
    by (simp add: price_of_def split: option.splits)
  with Cons show ?case by auto
qed

lemma scan_dexes_Found:
  assumes "scan_dexes dexes = Found p"
  shows "\<exists>d \<in> set dexes.
           (is_fluid (token0 d) \<and> price_of (token0 d) = Found p)
           \<or> (\<not> is_fluid (token0 d) \<and> is_fluid (token1 d) \<and> price_of (token1 d) = Found p)"
  using assms
proof (induction dexes)
  case Nil
  then show ?case by simp
next
  case (Cons d ds)
  then show ?case by (auto split: if_splits)
qed

lemma fluid_listing_scan:
  "fluid_listing p = Dexes [\<lparr> token0 = Some \<lparr> symbol = Some ''ETH'', float_price = Some 2500 \<rparr>,
              token1 = Some \<lparr> symbol = Some ''FLUID'', float_price = Some p \<rparr> \<rparr>]
   \<and> scan_dexes [\<lparr> token0 = Some \<lparr> symbol = Some ''ETH'', float_price = Some 2500 \<rparr>,
              token1 = Some \<lparr> symbol = Some ''FLUID'', float_price = Some p \<rparr> \<rparr>] = Found p"
  by (simp add: fluid_listing_def is_fluid_def price_of_def)

lemma other_listing_scan:
  "other_listing = Dexes [\<lparr> token0 = Some \<lparr> symbol = Some ''ETH'', float_price = Some 2500 \<rparr>,
              token1 = Some \<lparr> symbol = Some ''USDC'', float_price = Some 1 \<rparr> \<rparr>]
   \<and> scan_dexes [\<lparr> token0 = Some \<lparr> symbol = Some ''ETH'', float_price = Some 2500 \<rparr>,
              token1 = Some \<lparr> symbol = Some ''USDC'', float_price = Some 1 \<rparr> \<rparr>] = NotFound"
  by (simp add: other_listing_def is_fluid_def)

text \<open>
  Claim C4, as the code has it. In every state the module can reach (a stored timestamp
  comes with a stored price) \<^verbatim>\<open>get_fluid_price\<close> returns a number; the function is total,
  so it never raises. With \<^verbatim>\<open>use_cache\<close> true and a stored quote younger than 5 minutes,
  that quote is returned. Otherwise (no fresh quote, or \<^verbatim>\<open>use_cache\<close> false) the listing
  is fetched: the price of the first FLUID side is returned and stored with the time; a
  listing without a FLUID side gives 0.30 and leaves the stored quote alone, whether one
  exists or not; a failed request, or a FLUID price that does not convert, gives the stored
  quote when there is one other than 0.0, and 0.30 when there is none. A stored quote of
  exactly 0.0 at a failure is not covered by this statement.
\<close>

theorem get_fluid_price_tiers:
  assumes "timestamp c \<noteq> None \<longrightarrow> price c \<noteq> None"
  shows "fst (get_fluid_price use_cache now now' upstream c) \<noteq> None
   \<and> (use_cache \<and> timestamp c = Some ts \<and> age_minutes now ts < 5
        \<longrightarrow> get_fluid_price use_cache now now' upstream c = (price c, c))
   \<and> (\<not> (use_cache \<and> (\<exists>t. timestamp c = Some t \<and> age_minutes now t < 5))
        \<longrightarrow>
          (upstream = Dexes dexes \<and> scan_dexes dexes = Found p
             \<longrightarrow> get_fluid_price use_cache now now' upstream c
                   = (Some p, \<lparr> price = Some p, timestamp = Some now' \<rparr>))
        \<and> (upstream = Dexes dexes \<and> scan_dexes dexes = NotFound
             \<longrightarrow> get_fluid_price use_cache now now' upstream c = (Some (3 / 10), c))
        \<and> (upstream = RequestFailed e \<or> upstream = Dexes dexes \<and> scan_dexes dexes = Raised
             \<longrightarrow> (price c = Some q \<and> q \<noteq> 0
                     \<longrightarrow> get_fluid_price use_cache now now' upstream c = (Some q, c))
               \<and> (price c = None
                     \<longrightarrow> get_fluid_price use_cache now now' upstream c = (Some (3 / 10), c))))"
proof (intro conjI impI)
  show "fst (get_fluid_price use_cache now now' upstream c) \<noteq> None"
    by (rule get_fluid_price_number [OF assms])
next
  assume "use_cache \<and> timestamp c = Some ts \<and> age_minutes now ts < 5"
  then show "get_fluid_price use_cache now now' upstream c = (price c, c)"
    by (simp add: get_fluid_price_unfold)
next
  assume stale: "\<not> (use_cache \<and> (\<exists>t. timestamp c = Some t \<and> age_minutes now t < 5))"
    and "upstream = Dexes dexes \<and> scan_dexes dexes = Found p"
  then show "get_fluid_price use_cache now now' upstream c
                   = (Some p, \<lparr> price = Some p, timestamp = Some now' \<rparr>)"
    unfolding get_fluid_price_stale [OF stale] by (simp add: fetch_fluid_price_def)
next
  assume stale: "\<not> (use_cache \<and> (\<exists>t. timestamp c = Some t \<and> age_minutes now t < 5))"
    and "upstream = Dexes dexes \<and> scan_dexes dexes = NotFound"
  then show "get_fluid_price use_cache now now' upstream c = (Some (3 / 10), c)"
    unfolding get_fluid_price_stale [OF stale] by (simp add: fetch_fluid_price_def)
next
  assume stale: "\<not> (use_cache \<and> (\<exists>t. timestamp c = Some t \<and> age_minutes now t < 5))"
    and failed: "upstream = RequestFailed e \<or> upstream = Dexes dexes \<and> scan_dexes dexes = Raised"
    and q: "price c = Some q \<and> q \<noteq> 0"
  from failed have "fetch_fluid_price now' upstream c = price_fallback c"
    by (auto simp: fetch_fluid_price_def)
  with q show "get_fluid_price use_cache now now' upstream c = (Some q, c)"
    unfolding get_fluid_price_stale [OF stale]
    by (simp add: price_fallback_def truthy_price_def)
next
  assume stale: "\<not> (use_cache \<and> (\<exists>t. timestamp c = Some t \<and> age_minutes now t < 5))"
    and failed: "upstream = RequestFailed e \<or> upstream = Dexes dexes \<and> scan_dexes dexes = Raised"
    and q: "price c = None"
  from failed have "fetch_fluid_price now' upstream c = price_fallback c"
    by (auto simp: fetch_fluid_price_def)
  with q show "get_fluid_price use_cache now now' upstream c = (Some (3 / 10), c)"
    unfolding get_fluid_price_stale [OF stale]
    by (simp add: price_fallback_def truthy_price_def)
qed

text \<open>
  A quote of 0.50 stored at time 0: read one minute later, and ten minutes later with a
  listing that has FLUID, with one that has not, and with a failing request; and a failing
  request with nothing stored.
\<close>

theorem get_fluid_price_tiers_witness:
  "get_fluid_price True 60000000 60000000 (RequestFailed ''timeout'') stored_quote
     = (Some (1 / 2), stored_quote)
   \<and> get_fluid_price True 600000000 600000001 (fluid_listing (7 / 10)) stored_quote
     = (Some (7 / 10), \<lparr> price = Some (7 / 10), timestamp = Some 600000001 \<rparr>)
   \<and> get_fluid_price True 600000000 600000001 other_listing stored_quote
     = (Some (3 / 10), stored_quote)
   \<and> get_fluid_price True 600000000 600000001 (RequestFailed ''timeout'') stored_quote
     = (Some (1 / 2), stored_quote)
   \<and> get_fluid_price True 0 1 (RequestFailed ''timeout'') \<lparr> price = None, timestamp = None \<rparr>
     = (Some (3 / 10), \<lparr> price = None, timestamp = None \<rparr>)"
proof -
  have inv: "timestamp stored_quote \<noteq> None \<longrightarrow> price stored_quote \<noteq> None"
    by (simp add: stored_quote_def)
  have inv0: "timestamp \<lparr> price = None, timestamp = None \<rparr> \<noteq> None
                \<longrightarrow> price \<lparr> price = None, timestamp = None \<rparr> \<noteq> None"
    by simp
  have fresh: "timestamp stored_quote = Some 0 \<and> age_minutes 60000000 0 < 5"
    by (simp add: stored_quote_def age_minutes_def)
  have stale: "\<not> (True \<and> (\<exists>t. timestamp stored_quote = Some t \<and> age_minutes 600000000 t < 5))"
    by (simp add: stored_quote_def age_minutes_def)
  have q: "price stored_quote = Some (1 / 2) \<and> (1 / 2 :: real) \<noteq> 0"
    by (simp add: stored_quote_def)
  note a = get_fluid_price_tiers [OF inv, of True 60000000 60000000 "RequestFailed ''timeout''" 0]
  note b = get_fluid_price_tiers [OF inv, of True 600000000 600000001 "fluid_listing (7 / 10)" 0
      "[\<lparr> token0 = Some \<lparr> symbol = Some ''ETH'', float_price = Some 2500 \<rparr>,
         token1 = Some \<lparr> symbol = Some ''FLUID'', float_price = Some (7 / 10) \<rparr> \<rparr>]" "7 / 10"]
  note c = get_fluid_price_tiers [OF inv, of True 600000000 600000001 other_listing 0
      "[\<lparr> token0 = Some \<lparr> symbol = Some ''ETH'', float_price = Some 2500 \<rparr>,
         token1 = Some \<lparr> symbol = Some ''USDC'', float_price = Some 1 \<rparr> \<rparr>]"]
  note d = get_fluid_price_tiers [OF inv, of True 600000000 600000001 "RequestFailed ''timeout''"
      0 "[]" 0 "''timeout''" "1 / 2"]
  note e = get_fluid_price_tiers [OF inv0, of True 0 1 "RequestFailed ''timeout''"
      0 "[]" 0 "''timeout''" 0]
  from a fresh have 1: "get_fluid_price True 60000000 60000000 (RequestFailed ''timeout'')
      stored_quote = (Some (1 / 2), stored_quote)"
    by (simp add: stored_quote_def)
  from b stale fluid_listing_scan [of "7 / 10"]
  have 2: "get_fluid_price True 600000000 600000001 (fluid_listing (7 / 10)) stored_quote
     = (Some (7 / 10), \<lparr> price = Some (7 / 10), timestamp = Some 600000001 \<rparr>)"
    by simp
  from c stale other_listing_scan
  have 3: "get_fluid_price True 600000000 600000001 other_listing stored_quote
     = (Some (3 / 10), stored_quote)"
    by simp
  from d stale q
  have 4: "get_fluid_price True 600000000 600000001 (RequestFailed ''timeout'') stored_quote
     = (Some (1 / 2), stored_quote)"
    by simp
  from e
  have 5: "get_fluid_price True 0 1 (RequestFailed ''timeout'') \<lparr> price = None, timestamp = None \<rparr>
     = (Some (3 / 10), \<lparr> price = None, timestamp = None \<rparr>)"
    by simp
  from 1 2 3 4 5 show ?thesis by (intro conjI)
qed

text \<open>
  Claim C4 as stated fails. Ten minutes after a quote of 0.50 was stored, a listing
  without FLUID makes the function return 0.30 although a last known quote exists; and
  with \<^verbatim>\<open>use_cache\<close> false a quote that is one minute old is not returned.
\<close>

theorem get_fluid_price_tiers_counterexample:
  "get_fluid_price True 600000000 600000001 other_listing stored_quote
     = (Some (3 / 10), stored_quote)
   \<and> price stored_quote = Some (1 / 2)
   \<and> get_fluid_price False 60000000 60000001 (fluid_listing (7 / 10)) stored_quote
     = (Some (7 / 10), \<lparr> price = Some (7 / 10), timestamp = Some 60000001 \<rparr>)
   \<and> timestamp stored_quote = Some 0
   \<and> age_minutes 60000000 0 < 5"
  by (simp add: get_fluid_price_unfold fetch_fluid_price_def other_listing_def fluid_listing_def
      stored_quote_def is_fluid_def price_of_def age_minutes_def)

text \<open>
  The failure branch tests the stored price for truth, so a stored quote of 0.0 is passed
  over: a listing that prices FLUID at 0 is stored and returned; ten minutes later, when
  the request fails, the quote 0.0 exists and the function returns 0.30.
\<close>

theorem get_fluid_price_zero_quote:
  "get_fluid_price True 0 0
     (Dexes [\<lparr> token0 = Some \<lparr> symbol = Some ''FLUID'', float_price = Some 0 \<rparr>,
               token1 = None \<rparr>])
     \<lparr> price = None, timestamp = None \<rparr>
     = (Some 0, \<lparr> price = Some 0, timestamp = Some 0 \<rparr>)
   \<and> get_fluid_price True 600000000 600000000 (RequestFailed ''timeout'')
       \<lparr> price = Some 0, timestamp = Some 0 \<rparr>
     = (Some (3 / 10), \<lparr> price = Some 0, timestamp = Some 0 \<rparr>)"
  by (simp add: get_fluid_price_def fetch_fluid_price_def price_fallback_def truthy_price_def
      is_fluid_def price_of_def age_minutes_def CACHE_TTL_MINUTES_price_def)

section \<open>The cache files\<close>

text \<open>
  Claim C3, as the code has it. The Dune \<^verbatim>\<open>load_cache\<close> gives nothing when the file is
  missing, when it does not deserialise, and when the age of the entry is 60 minutes or
  more; otherwise it gives the stored frame. The Solana \<^verbatim>\<open>load_cache\<close> gives nothing when
  the file is missing or does not deserialise, and otherwise gives the stored transactions
  whatever their age: it never looks at the clock.
\<close>

theorem load_cache_ttl_dune_only:
  "load_cache_dune now NoFile = None
   \<and> load_cache_dune now BadJson = None
   \<and> (dune_last_updated cache = None \<or> dune_frame (dune_data cache) = None
        \<longrightarrow> load_cache_dune now (Json cache) = None)
   \<and> (dune_last_updated cache = Some last_updated
        \<and> 60 \<le> age_minutes now last_updated
        \<longrightarrow> load_cache_dune now (Json cache) = None)
   \<and> (dune_last_updated cache = Some last_updated
        \<and> age_minutes now last_updated < 60
        \<and> dune_frame (dune_data cache) = Some df
        \<longrightarrow> load_cache_dune now (Json cache) = Some (df, last_updated))
   \<and> load_cache_solana NoFile = None
   \<and> load_cache_solana BadJson = None
   \<and> (cached_transactions cache_data = None \<or> solana_last_updated cache_data = None
        \<longrightarrow> load_cache_solana (Json cache_data) = None)
   \<and> (cached_transactions cache_data = Some transactions
        \<and> solana_last_updated cache_data = Some updated
        \<longrightarrow> load_cache_solana (Json cache_data) = Some (transactions, updated))"
  by (auto simp: load_cache_dune_def load_cache_solana_def CACHE_TTL_MINUTES_dune_def
      split: option.splits)

text \<open>
  The Dune entry at an age of exactly 60 minutes and one microsecond before, an entry with
  no readable \<^verbatim>\<open>last_updated\<close>, and the two cases of a Solana file.
\<close>

theorem load_cache_ttl_dune_only_witness:
  "60 \<le> age_minutes 3600000000 0
   \<and> load_cache_dune 3600000000
        (Json \<lparr> dune_last_updated = Some 0, dune_data = Some [example_row] \<rparr>) = None
   \<and> age_minutes 3599999999 0 < 60
   \<and> dune_frame (Some [example_row]) = Some [example_row]
   \<and> load_cache_dune 3599999999
        (Json \<lparr> dune_last_updated = Some 0, dune_data = Some [example_row] \<rparr>)
       = Some ([example_row], 0)
   \<and> load_cache_dune 0 (Json \<lparr> dune_last_updated = None, dune_data = Some [example_row] \<rparr>)
       = None
   \<and> load_cache_solana
        (Json \<lparr> cached_transactions = Some example_transactions,
                solana_last_updated = Some 0 \<rparr>)
       = Some (example_transactions, 0)
   \<and> load_cache_solana
        (Json \<lparr> cached_transactions = None, solana_last_updated = Some 0 \<rparr>) = None"
  using
    load_cache_ttl_dune_only [of 3600000000
      "\<lparr> dune_last_updated = Some 0, dune_data = Some [example_row] \<rparr>" 0 "[example_row]"
      "\<lparr> cached_transactions = Some example_transactions, solana_last_updated = Some 0 \<rparr>"
      example_transactions 0]
    load_cache_ttl_dune_only [of 3599999999
      "\<lparr> dune_last_updated = Some 0, dune_data = Some [example_row] \<rparr>" 0 "[example_row]"
      "\<lparr> cached_transactions = None, solana_last_updated = Some 0 \<rparr>"
      example_transactions 0]
    load_cache_ttl_dune_only [of 0
      "\<lparr> dune_last_updated = None, dune_data = Some [example_row] \<rparr>" 0 "[example_row]"
      "\<lparr> cached_transactions = None, solana_last_updated = Some 0 \<rparr>"
      example_transactions 0]
  by (simp add: age_minutes_def dune_frame_def)

text \<open>
  Claim C3 as stated fails for the Solana cache: an entry that is 120 minutes old is
  returned.
\<close>

theorem load_cache_solana_stale_counterexample:
  "60 \<le> age_minutes 7200000000 0
   \<and> load_cache_solana
        (Json \<lparr> cached_transactions = Some example_transactions,
                solana_last_updated = Some 0 \<rparr>)
       = Some (example_transactions, 0)"
  by (simp add: age_minutes_def load_cache_solana_def)

section \<open>Processing the transfers\<close>

lemma process_loop_filter:
  assumes "\<forall>tx \<in> set raw. 1000 \<le> value_usd_of sp md tx \<longrightarrow> (\<exists>ts. parse_time tx = Inr ts)"
  shows "process_loop sp md raw acc =
           Inr (acc @ map (\<lambda>tx. make_transaction sp md tx (projr (parse_time tx)))
                        (filter (\<lambda>tx. 1000 \<le> value_usd_of sp md tx) raw))"
  using assms
proof (induction raw arbitrary: acc)
  case Nil
  then show ?case by simp
next
  case (Cons tx rest)
  show ?case
  proof (cases "value_usd_of sp md tx < 1000")
    case True
    with Cons show ?thesis by (simp add: MIN_VALUE_USD_def)
  next
    case False
    with Cons.prems obtain ts where ts: "parse_time tx = Inr ts" by auto
    with False Cons show ?thesis by (simp add: MIN_VALUE_USD_def not_less)
  qed
qed

lemma process_loop_values:
  assumes "process_loop sp md raw acc = Inr out"
    and "\<forall>t \<in> set acc. 1000 \<le> value_usd t"
  shows "\<forall>t \<in> set out. 1000 \<le> value_usd t"
  using assms
proof (induction raw arbitrary: acc)
  case Nil
  then show ?case by simp
next
  case (Cons tx rest)
  show ?case
  proof (cases "value_usd_of sp md tx < 1000")
    case True
    with Cons show ?thesis by (simp add: MIN_VALUE_USD_def)
  next
    case False
    with Cons.prems(1) obtain ts where ts: "parse_time tx = Inr ts"
      by (cases "parse_time tx") (simp_all add: MIN_VALUE_USD_def)
    from False have "\<forall>t \<in> set (acc @ [make_transaction sp md tx ts]). 1000 \<le> value_usd t"
      using Cons.prems(2) by (auto simp: make_transaction_def)
    moreover from False ts Cons.prems(1)
    have "process_loop sp md rest (acc @ [make_transaction sp md tx ts]) = Inr out"
      by (simp add: MIN_VALUE_USD_def)
    ultimately show ?thesis using Cons.IH by blast
  qed
qed

lemma process_loop_raises:
  assumes "filter (\<lambda>tx. 1000 \<le> value_usd_of sp md tx \<and> isl (parse_time tx)) raw = bad # rest"
  shows "process_loop sp md raw acc = Inl (projl (parse_time bad))"
  using assms
proof (induction raw arbitrary: acc)
  case Nil
  then show ?case by simp
next
  case (Cons tx raw)
  show ?case
  proof (cases "value_usd_of sp md tx < 1000")
    case True
    with Cons.prems
    have "filter (\<lambda>tx. 1000 \<le> value_usd_of sp md tx \<and> isl (parse_time tx)) raw = bad # rest"
      by simp
    from Cons.IH [OF this] True show ?thesis by (simp add: MIN_VALUE_USD_def)
  next
    case False
    show ?thesis
    proof (cases "parse_time tx")
      case (Inl e)
      with False Cons.prems have "bad = tx" by simp
      with False Inl show ?thesis by (simp add: MIN_VALUE_USD_def)
    next
      case (Inr ts)
      with Cons.prems
      have "filter (\<lambda>tx. 1000 \<le> value_usd_of sp md tx \<and> isl (parse_time tx)) raw = bad # rest"
        by simp
      from Cons.IH [OF this] False Inr show ?thesis by (simp add: MIN_VALUE_USD_def)
    qed
  qed
qed

text \<open>
  Claim C2, as the code has it. When the \<^verbatim>\<open>time\<close> of every transfer worth 1000 USD or
  more is an ISO-8601 timestamp, \<^verbatim>\<open>process_transactions\<close> keeps exactly the transfers
  whose computed USD value is 1000 or more, in their order, and drops every transfer whose
  value is below 1000 (the time of a dropped transfer is never read). When some transfer
  worth 1000 USD or more has a \<^verbatim>\<open>time\<close> that does not parse, the function raises the
  \<^verbatim>\<open>ValueError\<close> of the first such transfer and returns no list: no transfer of the batch
  is retained.
\<close>

theorem process_transactions_threshold:
  "((\<forall>tx \<in> set raw_data.
        1000 \<le> value_usd_of (get_sol_price vault) md tx \<longrightarrow> (\<exists>ts. parse_time tx = Inr ts))
      \<longrightarrow> process_transactions vault raw_data md =
           Inr (map (\<lambda>tx. make_transaction (get_sol_price vault) md tx (projr (parse_time tx)))
                  (filter (\<lambda>tx. 1000 \<le> value_usd_of (get_sol_price vault) md tx) raw_data)))
   \<and> (filter (\<lambda>tx. 1000 \<le> value_usd_of (get_sol_price vault) md tx \<and> isl (parse_time tx))
         raw_data = bad # rest
      \<longrightarrow> process_transactions vault raw_data md = Inl (projl (parse_time bad)))"
proof (intro conjI impI)
  assume "\<forall>tx \<in> set raw_data.
        1000 \<le> value_usd_of (get_sol_price vault) md tx \<longrightarrow> (\<exists>ts. parse_time tx = Inr ts)"
  from process_loop_filter [OF this, of "[]"]
  show "process_transactions vault raw_data md =
           Inr (map (\<lambda>tx. make_transaction (get_sol_price vault) md tx (projr (parse_time tx)))
                  (filter (\<lambda>tx. 1000 \<le> value_usd_of (get_sol_price vault) md tx) raw_data))"
    by (simp add: process_transactions_def)
next
  assume "filter (\<lambda>tx. 1000 \<le> value_usd_of (get_sol_price vault) md tx \<and> isl (parse_time tx))
         raw_data = bad # rest"
  from process_loop_raises [OF this, of "[]"]
  show "process_transactions vault raw_data md = Inl (projl (parse_time bad))"
    by (simp add: process_transactions_def)
qed

text \<open>
  Three USDC transfers of 999.999999, of exactly 1000 and of 2500, the last two with a
  timestamp: the first is dropped (and its missing time is never read), the other two are
  kept. The transfer of 2500 followed by one of exactly 1000 without a \<^verbatim>\<open>time\<close>: the
  function raises.
\<close>

theorem process_transactions_threshold_witness:
  "process_transactions VaultsFailed
     [example_transfer 999999999 ''below'' None,
      example_transfer 1000000000 ''exact'' (Some (Inr (2024, 5, 20, 0))),
      example_transfer 2500000000 ''above'' (Some (Inr (2024, 5, 21, 0)))]
     example_metadata
   = Inr [make_transaction 150 example_metadata
            (example_transfer 1000000000 ''exact'' (Some (Inr (2024, 5, 20, 0))))
            (2024, 5, 20, 0),
          make_transaction 150 example_metadata
            (example_transfer 2500000000 ''above'' (Some (Inr (2024, 5, 21, 0))))
            (2024, 5, 21, 0)]
   \<and> value_usd_of 150 example_metadata (example_transfer 999999999 ''below'' None) < 1000
   \<and> value_usd_of 150 example_metadata
        (example_transfer 1000000000 ''exact'' (Some (Inr (2024, 5, 20, 0)))) = 1000
   \<and> process_transactions VaultsFailed
        [example_transfer 2500000000 ''above'' (Some (Inr (2024, 5, 21, 0))),
         example_transfer 1000000000 ''exact'' None]
        example_metadata
      = Inl (''Invalid isoformat string: '' @ [CHR 0x27, CHR 0x27])"
proof -
  have v: "value_usd_of 150 example_metadata (example_transfer n s t) = real_of_int n / 1000000"
    for n s t
    by (simp add: value_usd_of_def token_symbol_of_def example_metadata_def
        example_transfer_def dict_get_def amount_of_def)
  have p: "parse_time (example_transfer n s (Some (Inr d))) = Inr d" for n s d
    by (simp add: parse_time_def example_transfer_def dict_get_def)
  have q: "parse_time (example_transfer n s None)
             = Inl (''Invalid isoformat string: '' @ [CHR 0x27, CHR 0x27])" for n s
    by (simp add: parse_time_def example_transfer_def dict_get_def)
  have s: "get_sol_price VaultsFailed = 150" by (simp add: get_sol_price_def)
  have h: "\<forall>tx \<in> set [example_transfer 999999999 ''below'' None,
      example_transfer 1000000000 ''exact'' (Some (Inr (2024, 5, 20, 0))),
      example_transfer 2500000000 ''above'' (Some (Inr (2024, 5, 21, 0)))].
        1000 \<le> value_usd_of (get_sol_price VaultsFailed) example_metadata tx
          \<longrightarrow> (\<exists>ts. parse_time tx = Inr ts)"
    by (simp add: v p s)
  have b: "filter (\<lambda>tx. 1000 \<le> value_usd_of (get_sol_price VaultsFailed) example_metadata tx
                        \<and> isl (parse_time tx))
             [example_transfer 2500000000 ''above'' (Some (Inr (2024, 5, 21, 0))),
              example_transfer 1000000000 ''exact'' None]
           = example_transfer 1000000000 ''exact'' None # []"
    by (simp add: v p q s)
  from process_transactions_threshold
         [of "[example_transfer 999999999 ''below'' None,
               example_transfer 1000000000 ''exact'' (Some (Inr (2024, 5, 20, 0))),
               example_transfer 2500000000 ''above'' (Some (Inr (2024, 5, 21, 0)))]"
             VaultsFailed example_metadata] h
  have 1: "process_transactions VaultsFailed
     [example_transfer 999999999 ''below'' None,
      example_transfer 1000000000 ''exact'' (Some (Inr (2024, 5, 20, 0))),
      example_transfer 2500000000 ''above'' (Some (Inr (2024, 5, 21, 0)))]
     example_metadata
   = Inr [make_transaction 150 example_metadata
            (example_transfer 1000000000 ''exact'' (Some (Inr (2024, 5, 20, 0))))
            (2024, 5, 20, 0),
          make_transaction 150 example_metadata
            (example_transfer 2500000000 ''above'' (Some (Inr (2024, 5, 21, 0))))
            (2024, 5, 21, 0)]"
    by (simp add: v p s)
  from process_transactions_threshold
         [of "[example_transfer 2500000000 ''above'' (Some (Inr (2024, 5, 21, 0))),
               example_transfer 1000000000 ''exact'' None]"
             VaultsFailed example_metadata "example_transfer 1000000000 ''exact'' None" "[]"] b
  have 2: "process_transactions VaultsFailed
        [example_transfer 2500000000 ''above'' (Some (Inr (2024, 5, 21, 0))),
         example_transfer 1000000000 ''exact'' None]
        example_metadata
      = Inl (''Invalid isoformat string: '' @ [CHR 0x27, CHR 0x27])"
    by (simp add: q)
  from 1 2 show ?thesis by (simp add: v)
qed

text \<open>
  Claim C2 as stated fails: a transfer worth exactly 1000 USD whose \<^verbatim>\<open>time\<close> is missing is
  not retained; \<^verbatim>\<open>process_transactions\<close> raises, and the transfer of 2500 USD before it
  is lost with it.
\<close>

theorem process_transactions_unparsed_counterexample:
  "value_usd_of (get_sol_price VaultsFailed) example_metadata
     (example_transfer 1000000000 ''exact'' None) = 1000
   \<and> process_transactions VaultsFailed
        [example_transfer 2500000000 ''above'' (Some (Inr (2024, 5, 21, 0))),
         example_transfer 1000000000 ''exact'' None]
        example_metadata
      = Inl (''Invalid isoformat string: '' @ [CHR 0x27, CHR 0x27])"
  by (simp add: process_transactions_def get_sol_price_def MIN_VALUE_USD_def value_usd_of_def
      token_symbol_of_def example_metadata_def example_transfer_def dict_get_def amount_of_def
      parse_time_def)

section \<open>Pagination and the Solana cache\<close>

lemma fetch_pages_Suc:
  "fetch_pages w page (Suc n) acc =
     (if \<not> page_success w page then Inl (page_error w page)
      else if page_data w page = [] then Inr acc
      else (case page_processed w page of
              Inl e \<Rightarrow> Inl (Some e)
            | Inr processed \<Rightarrow> fetch_pages w (Suc page) n (acc @ processed)))"
  by (simp add: page_success_def page_error_def page_data_def page_processed_def
      split: prod.splits)

lemma upt_head: "[p..<p + Suc k] = p # [Suc p..<Suc p + k]"
  using upt_conv_Cons [of p "p + Suc k"] by simp

lemma concat_head:
  "(acc @ g p) @ concat (map g [Suc p..<Suc p + k]) = acc @ concat (map g [p..<p + Suc k])"
  by (simp only: upt_head list.map concat.simps append_assoc)

lemma concat_head_upd:
  "(acc @ x) @ concat (map g [Suc p..<Suc p + k])
     = acc @ concat (map (g(p := x)) [p..<p + Suc k])"
proof -
  have "map (g(p := x)) [Suc p..<Suc p + k] = map g [Suc p..<Suc p + k]"
    by (rule map_cong) auto
  then show ?thesis
    by (simp only: upt_head list.map concat.simps append_assoc fun_upd_same)
qed

text \<open>
  While the pages answer with rows and are processed without an exception, the loop
  goes on to the next page with their transactions appended.
\<close>

lemma fetch_pages_prefix:
  assumes "\<forall>i. p \<le> i \<and> i < p + k \<longrightarrow>
             page_success w i \<and> page_data w i \<noteq> [] \<and> page_processed w i = Inr (g i)"
  shows "fetch_pages w p (k + m) acc = fetch_pages w (p + k) m (acc @ concat (map g [p..<p + k]))"
  using assms
proof (induction k arbitrary: p acc)
  case 0
  then show ?case by simp
next
  case (Suc k)
  from Suc.prems have here: "page_success w p" "page_data w p \<noteq> []" "page_processed w p = Inr (g p)"
    by simp_all
  from Suc.prems have rest: "\<forall>i. Suc p \<le> i \<and> i < Suc p + k \<longrightarrow>
             page_success w i \<and> page_data w i \<noteq> [] \<and> page_processed w i = Inr (g i)"
    by simp
  have "fetch_pages w p (Suc k + m) acc = fetch_pages w (Suc p) (k + m) (acc @ g p)"
    using here by (simp add: fetch_pages_Suc del: fetch_pages.simps)
  also have "\<dots> = fetch_pages w (Suc p + k) m ((acc @ g p) @ concat (map g [Suc p..<Suc p + k]))"
    by (rule Suc.IH [OF rest])
  also have "\<dots> = fetch_pages w (Suc p + k) m (acc @ concat (map g [p..<p + Suc k]))"
    by (simp only: concat_head [of acc g p k])
  also have "\<dots> = fetch_pages w (p + Suc k) m (acc @ concat (map g [p..<p + Suc k]))"
    by (simp only: add_Suc_shift)
  finally show ?case .
qed

text \<open>
  When the loop ends with a list, that list is the concatenation, in page order, of the
  processed lists of the pages it read.
\<close>

lemma fetch_pages_Inr:
  assumes "fetch_pages w p n acc = Inr txs"
  shows "\<exists>k g. k \<le> n
           \<and> (\<forall>i. p \<le> i \<and> i < p + k \<longrightarrow>
                 page_success w i \<and> page_data w i \<noteq> [] \<and> page_processed w i = Inr (g i))
           \<and> txs = acc @ concat (map g [p..<p + k])"
  using assms
proof (induction n arbitrary: p acc)
  case 0
  then have "txs = acc" by simp
  then have "0 \<le> (0::nat) \<and> (\<forall>i. p \<le> i \<and> i < p + 0 \<longrightarrow>
                 page_success w i \<and> page_data w i \<noteq> [] \<and> page_processed w i = Inr ((\<lambda>_. []) i))
           \<and> txs = acc @ concat (map (\<lambda>_. []) [p..<p + 0])" by auto
  then show ?case by (intro exI)
next
  case (Suc n)
  show ?case
  proof (cases "page_success w p \<and> page_data w p \<noteq> []")
    case False
    with Suc.prems have "txs = acc"
      by (auto simp: fetch_pages_Suc simp del: fetch_pages.simps split: if_splits)
    then have "0 \<le> Suc n \<and> (\<forall>i. p \<le> i \<and> i < p + 0 \<longrightarrow>
                 page_success w i \<and> page_data w i \<noteq> [] \<and> page_processed w i = Inr ((\<lambda>_. []) i))
           \<and> txs = acc @ concat (map (\<lambda>_. []) [p..<p + 0])" by auto
    then show ?thesis by (intro exI)
  next
    case True
    with Suc.prems obtain processed where pr: "page_processed w p = Inr processed"
      and rec: "fetch_pages w (Suc p) n (acc @ processed) = Inr txs"
      by (cases "page_processed w p")
         (simp_all add: fetch_pages_Suc del: fetch_pages.simps)
    from Suc.IH [OF rec] obtain k g where k: "k \<le> n"
      and good: "\<forall>i. Suc p \<le> i \<and> i < Suc p + k \<longrightarrow>
                 page_success w i \<and> page_data w i \<noteq> [] \<and> page_processed w i = Inr (g i)"
      and txs: "txs = (acc @ processed) @ concat (map g [Suc p..<Suc p + k])"
      by (elim exE conjE)
    let ?g = "g(p := processed)"
    have c1: "Suc k \<le> Suc n" using k by simp
    have c2: "\<forall>i. p \<le> i \<and> i < p + Suc k \<longrightarrow>
                 page_success w i \<and> page_data w i \<noteq> [] \<and> page_processed w i = Inr (?g i)"
    proof (intro allI impI)
      fix i assume i: "p \<le> i \<and> i < p + Suc k"
      show "page_success w i \<and> page_data w i \<noteq> [] \<and> page_processed w i = Inr (?g i)"
      proof (cases "i = p")
        case True
        with \<open>page_success w p \<and> page_data w p \<noteq> []\<close> pr show ?thesis by simp
      next
        case False
        with i have "Suc p \<le> i \<and> i < Suc p + k" by simp
        with good False show ?thesis by simp
      qed
    qed
    have c3: "txs = acc @ concat (map ?g [p..<p + Suc k])"
      using txs by (simp only: concat_head_upd)
    from c1 c2 c3 have "Suc k \<le> Suc n \<and> (\<forall>i. p \<le> i \<and> i < p + Suc k \<longrightarrow>
                 page_success w i \<and> page_data w i \<noteq> [] \<and> page_processed w i = Inr (?g i))
           \<and> txs = acc @ concat (map ?g [p..<p + Suc k])"
      by (intro conjI)
    then show ?thesis by (intro exI)
  qed
qed

lemma fetch_uncached_failure_empty:
  "fetch_uncached w n = ((txs, False, e), file') \<Longrightarrow> txs = [] \<and> file' = cache_file w"
  by (auto simp: fetch_uncached_def split: sum.splits)

lemma fetch_all_transactions_miss:
  assumes "load_cache_solana (cache_file w) = None
           \<or> (\<exists>lu. load_cache_solana (cache_file w) = Some ([], lu))"
  shows "fetch_all_transactions w max_pages = fetch_uncached w max_pages"
  using assms by (auto simp: fetch_all_transactions_def)

lemma page_processed_values:
  assumes "page_processed w i = Inr out"
  shows "\<forall>t \<in> set out. 1000 \<le> value_usd t"
proof -
  obtain raw_data md success err
    where f: "fetch_from_solscan (api_key w) (solscan w i) = (raw_data, md, success, err)"
    by (cases "fetch_from_solscan (api_key w) (solscan w i)") auto
  with assms have "process_loop (get_sol_price (vault_api w i)) md raw_data [] = Inr out"
    by (simp add: page_processed_def process_transactions_def)
  then show ?thesis by (rule process_loop_values) simp
qed

text \<open>The example answers of Solscan: one page of two transfers, then a second page.\<close>

lemma example_value:
  "value_usd_of 150 example_metadata (example_transfer n s t) = real_of_int n / 1000000"
  by (simp add: value_usd_of_def token_symbol_of_def example_metadata_def
      example_transfer_def dict_get_def amount_of_def)

lemma example_first_page:
  "page_success (example_world r) 1
   \<and> page_data (example_world r) 1
       = [example_transfer 999999999 ''below'' None,
          example_transfer 1000000000 ''exact'' (Some (Inr (2024, 5, 20, 0)))]
   \<and> page_processed (example_world r) 1 = Inr [example_kept]"
proof -
  have p: "parse_time (example_transfer n s (Some (Inr d))) = Inr d" for n s d
    by (simp add: parse_time_def example_transfer_def dict_get_def)
  have f: "fetch_from_solscan (api_key (example_world r)) (solscan (example_world r) 1)
      = ([example_transfer 999999999 ''below'' None,
          example_transfer 1000000000 ''exact'' (Some (Inr (2024, 5, 20, 0)))],
         example_metadata, True, None)"
    by (simp add: example_world_def fetch_from_solscan_def dict_get_def)
  have v: "vault_api (example_world r) 1 = VaultsFailed" by (simp add: example_world_def)
  show ?thesis
    unfolding page_success_def page_data_def page_processed_def f v
    by (simp add: process_transactions_def get_sol_price_def example_value p MIN_VALUE_USD_def
        example_kept_def)
qed

lemma example_second_page:
  "\<not> page_success (example_world (RequestException ''503 Server Error'')) 2
   \<and> page_error (example_world (RequestException ''503 Server Error'')) 2
       = Some ''503 Server Error''
   \<and> page_success (example_world empty_page) 2
   \<and> page_data (example_world empty_page) 2 = []"
  by (simp add: page_success_def page_error_def page_data_def example_world_def
      fetch_from_solscan_def empty_page_def dict_get_def)

lemma upt_1_2: "[1..<2] = [1::nat]"
  by (simp add: upt_rec)

lemma example_concat: "concat (map (\<lambda>_. [example_kept]) [1..<2]) = [example_kept]"
  by (simp only: upt_1_2 list.map concat.simps append_Nil2)

lemma example_miss:
  "load_cache_solana (cache_file (example_world r)) = None
   \<or> (\<exists>lu. load_cache_solana (cache_file (example_world r)) = Some ([], lu))"
  by (simp add: example_world_def load_cache_solana_def)

lemma example_good:
  "\<forall>i. 1 \<le> i \<and> i < 2 \<longrightarrow>
     page_success (example_world r) i \<and> page_data (example_world r) i \<noteq> []
     \<and> page_processed (example_world r) i = Inr ((\<lambda>_. [example_kept]) i)"
proof (intro allI impI)
  fix i :: nat assume "1 \<le> i \<and> i < 2"
  then have "i = 1" by simp
  then show "page_success (example_world r) i \<and> page_data (example_world r) i \<noteq> []
     \<and> page_processed (example_world r) i = Inr ((\<lambda>_. [example_kept]) i)"
    using example_first_page [of r] by simp
qed

lemma example_fetch_pages:
  "fetch_pages (example_world empty_page) 1 5 [] = Inr [example_kept]"
proof -
  have good: "\<forall>i. 1 \<le> i \<and> i < 1 + 1 \<longrightarrow>
     page_success (example_world empty_page) i \<and> page_data (example_world empty_page) i \<noteq> []
     \<and> page_processed (example_world empty_page) i = Inr ((\<lambda>_. [example_kept]) i)"
    using example_good [of empty_page] by simp
  have n: "(1::nat) + 1 = 2" "1 + Suc 3 = (5::nat)" by simp_all
  have "fetch_pages (example_world empty_page) 1 (1 + Suc 3) []
          = fetch_pages (example_world empty_page) (1 + 1) (Suc 3)
              ([] @ concat (map (\<lambda>_. [example_kept]) [1..<1 + 1]))"
    by (rule fetch_pages_prefix [OF good])
  then have "fetch_pages (example_world empty_page) 1 5 []
          = fetch_pages (example_world empty_page) 2 (Suc 3) [example_kept]"
    unfolding n by (simp only: append_Nil example_concat)
  also have "\<dots> = Inr [example_kept]"
    by (subst fetch_pages_Suc) (simp add: example_second_page)
  finally show ?thesis .
qed

lemma example_fetch_all:
  "fetch_all_transactions (example_world empty_page) 5
     = (([example_kept], True, None), save_cache_solana 42 [example_kept])"
proof -
  have "clock (example_world empty_page) = 42" by (simp add: example_world_def)
  then show ?thesis
    unfolding fetch_all_transactions_miss [OF example_miss] fetch_uncached_def
      example_fetch_pages
    by simp
qed

text \<open>
  Claim C6. During pagination (the cache gave nothing), let page \<open>k\<close> be within the page
  limit and let every page before it have answered with rows that were processed. If the
  request for page \<open>k\<close> fails, \<^verbatim>\<open>fetch_all_transactions\<close> returns the empty list, failure
  and the error of that page, and leaves the cache file as it was: nothing of the earlier
  pages is returned. If page \<open>k\<close> answers with zero rows, pagination ends there without
  an error, with the transactions of the earlier pages.
\<close>

theorem fetch_all_transactions_page_failure:
  assumes miss: "load_cache_solana (cache_file w) = None
                 \<or> (\<exists>lu. load_cache_solana (cache_file w) = Some ([], lu))"
    and k: "1 \<le> k" "k \<le> max_pages"
    and good: "\<forall>i. 1 \<le> i \<and> i < k \<longrightarrow>
                 page_success w i \<and> page_data w i \<noteq> [] \<and> page_processed w i = Inr (g i)"
  shows "(\<not> page_success w k \<longrightarrow>
            fetch_all_transactions w max_pages = (([], False, page_error w k), cache_file w))
       \<and> (page_success w k \<and> page_data w k = [] \<longrightarrow>
            fetch_all_transactions w max_pages
              = ((concat (map g [1..<k]), True, None),
                 save_cache_solana (clock w) (concat (map g [1..<k]))))"
proof -
  obtain j where j: "k = Suc j" using k(1) by (cases k) auto
  obtain m where m: "max_pages = j + Suc m"
    using k(2) j by (metis add_Suc_right le_Suc_ex add_Suc)
  from good j have good': "\<forall>i. 1 \<le> i \<and> i < 1 + j \<longrightarrow>
                 page_success w i \<and> page_data w i \<noteq> [] \<and> page_processed w i = Inr (g i)"
    by simp
  have "fetch_pages w 1 (j + Suc m) [] = fetch_pages w (1 + j) (Suc m) ([] @ concat (map g [1..<1 + j]))"
    by (rule fetch_pages_prefix [OF good'])
  then have pages: "fetch_pages w 1 max_pages [] = fetch_pages w k (Suc m) (concat (map g [1..<k]))"
    using j m by simp
  have un: "fetch_all_transactions w max_pages = fetch_uncached w max_pages"
    by (rule fetch_all_transactions_miss [OF miss])
  show ?thesis
    unfolding un fetch_uncached_def pages
    by (simp add: fetch_pages_Suc del: fetch_pages.simps)
qed

text \<open>
  A first page with rows followed by a failing request, and the same first page followed
  by a page without rows.
\<close>

theorem fetch_all_transactions_page_failure_witness:
  "fetch_all_transactions (example_world (RequestException ''503 Server Error'')) 5
     = (([], False, Some ''503 Server Error''), NoFile)
   \<and> fetch_all_transactions (example_world empty_page) 5
     = (([example_kept], True, None), save_cache_solana 42 [example_kept])"
proof -
  have k: "(1::nat) \<le> 2" "(2::nat) \<le> 5" by simp_all
  note u = example_concat
  show ?thesis
    using
      fetch_all_transactions_page_failure [OF example_miss k example_good,
        of "RequestException ''503 Server Error''"]
      fetch_all_transactions_page_failure [OF example_miss k example_good, of empty_page]
      example_second_page
    unfolding u
    by (simp add: example_world_def)
qed

text \<open>
  Claim C5, as the code has it. After a successful fetch that did not come from the cache,
  the dataset stored in the Solana cache file is the list that is returned: the
  concatenation, in page order, of the processed transactions of the pages read, that is,
  after classification and after the filter at 1000 USD; every stored transaction has a
  USD value of at least 1000.
\<close>

theorem fetch_all_transactions_caches_processed:
  assumes miss: "load_cache_solana (cache_file w) = None
                 \<or> (\<exists>lu. load_cache_solana (cache_file w) = Some ([], lu))"
    and ok: "fetch_all_transactions w max_pages = ((txs, True, e), file')"
  shows "file' = save_cache_solana (clock w) txs
       \<and> (\<forall>t \<in> set txs. 1000 \<le> value_usd t)
       \<and> (\<exists>k g. k \<le> max_pages
             \<and> (\<forall>i. 1 \<le> i \<and> i < 1 + k \<longrightarrow>
                   page_success w i \<and> page_data w i \<noteq> [] \<and> page_processed w i = Inr (g i))
             \<and> txs = concat (map g [1..<1 + k]))"
proof -
  have un: "fetch_uncached w max_pages = ((txs, True, e), file')"
    using ok fetch_all_transactions_miss [OF miss] by simp
  then have pages: "fetch_pages w 1 max_pages [] = Inr txs"
    and stored: "file' = save_cache_solana (clock w) txs"
    by (auto simp: fetch_uncached_def split: sum.splits)
  from fetch_pages_Inr [OF pages] obtain k g where k: "k \<le> max_pages"
    and good: "\<forall>i. 1 \<le> i \<and> i < 1 + k \<longrightarrow>
                   page_success w i \<and> page_data w i \<noteq> [] \<and> page_processed w i = Inr (g i)"
    and txs: "txs = [] @ concat (map g [1..<1 + k])"
    by (elim exE conjE)
  have vals: "\<forall>t \<in> set txs. 1000 \<le> value_usd t"
  proof
    fix t assume "t \<in> set txs"
    then have "t \<in> set ([] @ concat (map g [1..<1 + k]))" by (simp only: txs [symmetric])
    then have "t \<in> set (concat (map g [1..<1 + k]))" by (simp only: append_Nil)
    then obtain i where ii: "i \<in> set [1..<1 + k]" and t: "t \<in> set (g i)"
      unfolding set_concat set_map by blast
    from ii have i: "1 \<le> i \<and> i < 1 + k" unfolding set_upt atLeastLessThan_iff .
    from good i have "page_processed w i = Inr (g i)" by blast
    from page_processed_values [OF this] t show "1000 \<le> value_usd t" by blast
  qed
  from k good txs have "k \<le> max_pages
             \<and> (\<forall>i. 1 \<le> i \<and> i < 1 + k \<longrightarrow>
                   page_success w i \<and> page_data w i \<noteq> [] \<and> page_processed w i = Inr (g i))
             \<and> txs = concat (map g [1..<1 + k])" by simp
  then have "\<exists>k g. k \<le> max_pages
             \<and> (\<forall>i. 1 \<le> i \<and> i < 1 + k \<longrightarrow>
                   page_success w i \<and> page_data w i \<noteq> [] \<and> page_processed w i = Inr (g i))
             \<and> txs = concat (map g [1..<1 + k])" by (intro exI)
  with stored vals show ?thesis by (intro conjI)
qed

text \<open>The example with the second page empty.\<close>

theorem fetch_all_transactions_caches_processed_witness:
  "fetch_all_transactions (example_world empty_page) 5
     = (([example_kept], True, None), save_cache_solana 42 [example_kept])
   \<and> 1000 \<le> value_usd example_kept"
  using fetch_all_transactions_caches_processed [OF example_miss example_fetch_all]
    example_fetch_all
  by simp

text \<open>
  Claim C5 as stated fails: upstream returns two transfers on the only page with rows, one
  of them worth 999.999999 USD; the stored dataset holds one processed transaction, the
  one of the transfer worth 1000 USD.
\<close>

theorem fetch_all_transactions_caches_raw_counterexample:
  "snd (fetch_all_transactions (example_world empty_page) 5)
     = Json \<lparr> cached_transactions = Some [example_kept], solana_last_updated = Some 42 \<rparr>
   \<and> page_data (example_world empty_page) 1
       = [example_transfer 999999999 ''below'' None,
          example_transfer 1000000000 ''exact'' (Some (Inr (2024, 5, 20, 0)))]
   \<and> page_data (example_world empty_page) 2 = []
   \<and> signature example_kept = ''exact''"
  using example_first_page [of empty_page] example_second_page
  by (simp add: example_fetch_all save_cache_solana_def example_kept_def make_transaction_def
      example_transfer_def dict_get_def)

section \<open>The monthly Solana frame\<close>

lemma outflow_filter:
  "filter (\<lambda>t. tx_token t \<noteq> ''USDC'') (filter (\<lambda>t. tx_type t = ''Outflow'') txs)
     = filter (\<lambda>t. tx_type t = ''Outflow'' \<and> tx_token t \<noteq> ''USDC'') txs"
  by (simp add: conj_commute)

lemma aggregate_transactions_eq:
  "fst (aggregate_transactions txs)
     = (if filter (\<lambda>t. tx_type t = ''Outflow'' \<and> tx_token t \<noteq> ''USDC'') txs = [] then []
        else groupby_month_token
               (filter (\<lambda>t. tx_type t = ''Outflow'' \<and> tx_token t \<noteq> ''USDC'') txs))"
  unfolding aggregate_transactions_def Let_def outflow_filter
  by (cases "txs = []") simp_all

text \<open>Removing the inflows and the USDC transfers from the input leaves the frame as it is.\<close>

lemma aggregate_transactions_ignores:
  "fst (aggregate_transactions txs)
     = fst (aggregate_transactions
              (filter (\<lambda>t. tx_type t = ''Outflow'' \<and> tx_token t \<noteq> ''USDC'') txs))"
  unfolding aggregate_transactions_eq by simp

lemma groupby_row:
  assumes "r \<in> set (groupby_month_token df)"
  shows "\<exists>t \<in> set df. month_token t = (sol_month r, sol_token r)
           \<and> r = group_row df (sol_month r, sol_token r)"
proof -
  from assms have "r \<in> group_row df ` set (map month_token df)"
    by (simp add: groupby_month_token_def)
  then obtain k where k: "k \<in> set (map month_token df)" and r: "r = group_row df k"
    by (rule imageE)
  from r have "(sol_month r, sol_token r) = k" by (simp add: group_row_def Let_def)
  with k r show ?thesis by auto
qed

lemma aggregate_transactions_rows:
  assumes "r \<in> set (fst (aggregate_transactions txs))"
  shows "sol_token r \<noteq> ''USDC''
       \<and> filter (\<lambda>t. tx_type t = ''Outflow'' \<and> tx_token t \<noteq> ''USDC''
                     \<and> month_token t = (sol_month r, sol_token r)) txs \<noteq> []
       \<and> total_amount r = sum_list (map amount
           (filter (\<lambda>t. tx_type t = ''Outflow'' \<and> tx_token t \<noteq> ''USDC''
                     \<and> month_token t = (sol_month r, sol_token r)) txs))
       \<and> total_usd r = sum_list (map value_usd
           (filter (\<lambda>t. tx_type t = ''Outflow'' \<and> tx_token t \<noteq> ''USDC''
                     \<and> month_token t = (sol_month r, sol_token r)) txs))
       \<and> sol_num_transactions r = int (length
           (filter (\<lambda>t. tx_type t = ''Outflow'' \<and> tx_token t \<noteq> ''USDC''
                     \<and> month_token t = (sol_month r, sol_token r)) txs))"
proof -
  let ?df = "filter (\<lambda>t. tx_type t = ''Outflow'' \<and> tx_token t \<noteq> ''USDC'') txs"
  let ?g = "filter (\<lambda>t. tx_type t = ''Outflow'' \<and> tx_token t \<noteq> ''USDC''
                     \<and> month_token t = (sol_month r, sol_token r)) txs"
  from assms have "r \<in> set (groupby_month_token ?df)"
    unfolding aggregate_transactions_eq by (simp split: if_splits)
  from groupby_row [OF this] obtain t where t: "t \<in> set ?df"
    and mt: "month_token t = (sol_month r, sol_token r)"
    and r: "r = group_row ?df (sol_month r, sol_token r)"
    by blast
  have g: "filter (\<lambda>t. month_token t = (sol_month r, sol_token r)) ?df = ?g"
    by (simp add: conj_assoc)
  from t mt have "t \<in> set ?g" by simp
  then have ne: "?g \<noteq> []" by (metis empty_iff empty_set)
  from t mt have usdc: "sol_token r \<noteq> ''USDC''" by (auto simp: month_token_def)
  have "total_amount (group_row ?df (sol_month r, sol_token r)) = sum_list (map amount ?g)"
    unfolding group_row_def Let_def g by simp
  with r have a: "total_amount r = sum_list (map amount ?g)" by simp
  have "total_usd (group_row ?df (sol_month r, sol_token r)) = sum_list (map value_usd ?g)"
    unfolding group_row_def Let_def g by simp
  with r have u: "total_usd r = sum_list (map value_usd ?g)" by simp
  have "sol_num_transactions (group_row ?df (sol_month r, sol_token r)) = int (length ?g)"
    unfolding group_row_def Let_def g by simp
  with r have n: "sol_num_transactions r = int (length ?g)" by simp
  from usdc ne a u n show ?thesis by (intro conjI)
qed

lemma fetch_all_transactions_failure_empty:
  assumes "fetch_all_transactions w n = ((txs, False, e), file')"
  shows "txs = []"
proof (cases "fetch_all_transactions w n = fetch_uncached w n")
  case True
  with assms have "fetch_uncached w n = ((txs, False, e), file')" by simp
  then show ?thesis by (rule fetch_uncached_failure_empty [THEN conjunct1])
next
  case False
  with assms show ?thesis
    by (auto simp: fetch_all_transactions_def split: option.splits prod.splits if_splits)
qed

lemma aggregate_monthly_expenses_rows:
  "fst (fst (aggregate_monthly_expenses w))
     = fst (aggregate_transactions (fst (fst (fetch_all_transactions w 5))))"
proof -
  obtain txs success e file' where f: "fetch_all_transactions w 5 = ((txs, success, e), file')"
    by (metis prod.exhaust)
  show ?thesis
  proof (cases success)
    case True
    with f show ?thesis by (simp add: aggregate_monthly_expenses_def)
  next
    case False
    with f have "fetch_all_transactions w 5 = ((txs, False, e), file')" by simp
    then have "txs = []" by (rule fetch_all_transactions_failure_empty)
    with f False show ?thesis
      by (simp add: aggregate_monthly_expenses_def aggregate_transactions_def)
  qed
qed

text \<open>
  Claim C1. For every state of the cache and every answer of upstream, no row of the frame
  that \<^verbatim>\<open>aggregate_monthly_expenses\<close> returns has the token USDC; the amount, the USD
  total and the count of each row are those of the fetched transactions of type Outflow,
  of a token other than USDC, of the row's month and token, and there is at least one such
  transaction; and the frame is the one obtained from the Outflow, non-USDC transactions
  alone, so inflows and USDC transfers contribute to no row.
\<close>

theorem aggregate_monthly_expenses_outflow_non_usdc:
  "(\<forall>r \<in> set (fst (fst (aggregate_monthly_expenses w))).
      sol_token r \<noteq> ''USDC''
      \<and> filter (\<lambda>t. tx_type t = ''Outflow'' \<and> tx_token t \<noteq> ''USDC''
                    \<and> month_token t = (sol_month r, sol_token r))
           (fst (fst (fetch_all_transactions w 5))) \<noteq> []
      \<and> total_amount r = sum_list (map amount
           (filter (\<lambda>t. tx_type t = ''Outflow'' \<and> tx_token t \<noteq> ''USDC''
                     \<and> month_token t = (sol_month r, sol_token r))
              (fst (fst (fetch_all_transactions w 5)))))
      \<and> total_usd r = sum_list (map value_usd
           (filter (\<lambda>t. tx_type t = ''Outflow'' \<and> tx_token t \<noteq> ''USDC''
                     \<and> month_token t = (sol_month r, sol_token r))
              (fst (fst (fetch_all_transactions w 5)))))
      \<and> sol_num_transactions r = int (length
           (filter (\<lambda>t. tx_type t = ''Outflow'' \<and> tx_token t \<noteq> ''USDC''
                     \<and> month_token t = (sol_month r, sol_token r))
              (fst (fst (fetch_all_transactions w 5))))))
   \<and> fst (fst (aggregate_monthly_expenses w))
       = fst (aggregate_transactions
                (filter (\<lambda>t. tx_type t = ''Outflow'' \<and> tx_token t \<noteq> ''USDC'')
                   (fst (fst (fetch_all_transactions w 5)))))"
proof (intro conjI ballI)
  fix r assume "r \<in> set (fst (fst (aggregate_monthly_expenses w)))"
  then have r: "r \<in> set (fst (aggregate_transactions (fst (fst (fetch_all_transactions w 5)))))"
    by (simp only: aggregate_monthly_expenses_rows)
  note rows = aggregate_transactions_rows [OF r]
  from rows show "sol_token r \<noteq> ''USDC''" by (elim conjE)
  from rows show "filter (\<lambda>t. tx_type t = ''Outflow'' \<and> tx_token t \<noteq> ''USDC''
                    \<and> month_token t = (sol_month r, sol_token r))
           (fst (fst (fetch_all_transactions w 5))) \<noteq> []" by (elim conjE)
  from rows show "total_amount r = sum_list (map amount
           (filter (\<lambda>t. tx_type t = ''Outflow'' \<and> tx_token t \<noteq> ''USDC''
                     \<and> month_token t = (sol_month r, sol_token r))
              (fst (fst (fetch_all_transactions w 5)))))" by (elim conjE)
  from rows show "total_usd r = sum_list (map value_usd
           (filter (\<lambda>t. tx_type t = ''Outflow'' \<and> tx_token t \<noteq> ''USDC''
                     \<and> month_token t = (sol_month r, sol_token r))
              (fst (fst (fetch_all_transactions w 5)))))" by (elim conjE)
  from rows show "sol_num_transactions r = int (length
           (filter (\<lambda>t. tx_type t = ''Outflow'' \<and> tx_token t \<noteq> ''USDC''
                     \<and> month_token t = (sol_month r, sol_token r))
              (fst (fst (fetch_all_transactions w 5)))))" by (elim conjE)
next
  show "fst (fst (aggregate_monthly_expenses w))
       = fst (aggregate_transactions
                (filter (\<lambda>t. tx_type t = ''Outflow'' \<and> tx_token t \<noteq> ''USDC'')
                   (fst (fst (fetch_all_transactions w 5)))))"
    unfolding aggregate_monthly_expenses_rows by (rule aggregate_transactions_ignores)
qed

lemma cached_world_fetch:
  "fst (fst (fetch_all_transactions cached_world 5)) = example_transactions"
  by (simp add: fetch_all_transactions_def cached_world_def load_cache_solana_def
      example_transactions_def)

lemma cached_world_rows:
  "fst (fst (aggregate_monthly_expenses cached_world)) = [example_monthly]"
  unfolding aggregate_monthly_expenses_rows cached_world_fetch aggregate_transactions_eq
  by (simp add: example_transactions_def groupby_month_token_def group_row_def
      month_token_def example_monthly_def)

text \<open>
  A cache holding a USDC outflow of 2000, a WSOL outflow worth 1500 and a FLUID inflow, all
  of May 2024: the frame has the single row of WSOL, with one transaction.
\<close>

theorem aggregate_monthly_expenses_outflow_non_usdc_witness:
  "fst (fst (aggregate_monthly_expenses cached_world)) = [example_monthly]
   \<and> fst (fst (fetch_all_transactions cached_world 5)) = example_transactions
   \<and> sol_token example_monthly \<noteq> ''USDC''
   \<and> total_usd example_monthly = 1500
   \<and> sol_num_transactions example_monthly = 1"
  using aggregate_monthly_expenses_outflow_non_usdc [of cached_world]
    cached_world_rows cached_world_fetch
  by (simp add: example_monthly_def)

end
